theory Spec2Isabelle
  imports Complex_Main "HOL-Library.Word"
begin

section \<open>Data model of \<open>custom_components/bj_led/bjled.py\<close>\<close>

text \<open>
  The module drives one Bluetooth LED controller. A command builds a byte packet, makes sure
  a connection exists and writes the packet to one GATT characteristic. The Bluetooth stack
  (\<open>bleak\<close>, \<open>bleak_retry_connector\<close>) and the \<open>asyncio\<close> loop are outside the module: they
  are modelled as an environment that decides the outcome of each transport call, and as
  fields of the state that record what the module asked of them.

  One task runs at a time in this model, so \<open>_connect_lock\<close> is free whenever a function
  is entered and \<open>async with self._connect_lock\<close> always proceeds at once.
\<close>

subsection \<open>Exceptions\<close>

datatype exn =
    BleakNotFoundError string
  | BleakDBusError string
  | BleakError string
  | TimeoutError string
  | AttributeError string
  | TypeError string
  | ValueError string

text \<open>\<open>except BleakNotFoundError\<close>\<close>

fun is_BleakNotFoundError :: "exn \<Rightarrow> bool" where
  "is_BleakNotFoundError (BleakNotFoundError m) = True"
| "is_BleakNotFoundError e = False"

text \<open>\<open>RETRY_BACKOFF_EXCEPTIONS = (BleakDBusError)\<close>\<close>

fun RETRY_BACKOFF_EXCEPTIONS :: "exn \<Rightarrow> bool" where
  "RETRY_BACKOFF_EXCEPTIONS (BleakDBusError m) = True"
| "RETRY_BACKOFF_EXCEPTIONS e = False"

text \<open>
  Modelled from the spec: \<open>BLEAK_RETRY_EXCEPTIONS\<close> is a tuple of exception classes
  imported from \<open>bleak_retry_connector\<close> (as \<open>BLEAK_EXCEPTIONS\<close>); its definition is not
  part of the repository. The spec calls it the "broader class of generic transport/link
  errors". Here it holds the Bleak error classes (\<open>BleakNotFoundError\<close> and
  \<open>BleakDBusError\<close> are subclasses of \<open>BleakError\<close>), the time-out and \<open>AttributeError\<close>;
  \<open>TypeError\<close> and \<open>ValueError\<close> are not in it.
\<close>

fun BLEAK_EXCEPTIONS :: "exn \<Rightarrow> bool" where
  "BLEAK_EXCEPTIONS (TypeError m) = False"
| "BLEAK_EXCEPTIONS (ValueError m) = False"
| "BLEAK_EXCEPTIONS e = True"

subsection \<open>Bytes, characteristics, the client\<close>

type_synonym byte = "8 word"

type_synonym characteristic = string

text \<open>A \<open>BleakGATTServiceCollection\<close>, as the UUIDs of the characteristics it holds.\<close>

type_synonym services = "characteristic list"

definition get_characteristic :: "services \<Rightarrow> string \<Rightarrow> characteristic option" where
  "get_characteristic svcs uuid = find (\<lambda>c. c = uuid) svcs"

datatype client = BleakClientWithServiceCache (services: services)

text \<open>
  The transport: what the \<open>n\<close>-th suspension point of the session yields if it is a
  connect, a write or a disconnect, and whether the link is up at time \<open>n\<close>.
\<close>

record transport =
  establish_connection :: "nat \<Rightarrow> exn + client"
  is_connected :: "nat \<Rightarrow> bool"
  write_gatt_char :: "nat \<Rightarrow> exn option"
  client_disconnect :: "nat \<Rightarrow> exn option"

subsection \<open>What the session asks of the outside\<close>

datatype level = DEBUG | WARNING | ERROR

datatype event =
    Log level string
  | EstablishConnection "services option"
  | WriteGattChar client "characteristic option" "byte list option"
  | ClientDisconnect client
  | Sleep rat

subsection \<open>The session\<close>

text \<open>
  The fields of \<open>BJLEDInstance\<close> that the commands read or write (the leading underscore
  of the Python names is dropped), then the part of the world the session acts on:
  \<open>clock\<close> counts the suspension points passed, \<open>timers\<close> holds the pending handles of
  \<open>self.loop\<close> with their delays, \<open>next_handle\<close> is the next fresh handle, \<open>trace\<close>
  records the calls made to the transport, to \<open>asyncio.sleep\<close> and to the logger.
\<close>

record BJLEDInstance =
  device_name :: string
  delay :: "int option"
  client :: "client option"
  disconnect_timer :: "nat option"
  cached_services :: "services option"
  expected_disconnect :: bool
  is_on :: "bool option"
  rgb_color :: "(int \<times> int \<times> int) option"
  brightness :: "int option"
  effect :: "string option"
  write_uuid :: "characteristic option"
  read_uuid :: "characteristic option"
  turn_on_cmd :: "byte list option"
  turn_off_cmd :: "byte list option"
  model :: "nat option"
  clock :: nat
  timers :: "(nat \<times> int) list"
  next_handle :: nat
  trace :: "event list"

section \<open>Constants\<close>

definition EFFECT_MAP :: "(string \<times> int) list" where
  "EFFECT_MAP =
    [(''colorloop'', 0x00), (''red_fade'', 0x01), (''green_fade'', 0x02),
     (''blue_fade'', 0x03), (''yellow_fade'', 0x04), (''cyan_fade'', 0x05),
     (''purple_fade'', 0x06), (''white_fade'', 0x07), (''rg_cross_fade'', 0x08),
     (''rb_cross_fade'', 0x09), (''gb_cross_fade'', 0x0a), (''colorstrobe'', 0x0c),
     (''red_strobe'', 0x0d), (''green_strobe'', 0x0e), (''blue_strobe'', 0x0f),
     (''yellow_strobe'', 0x10), (''cyan_strobe'', 0x11), (''purple_strobe'', 0x12),
     (''white_strobe'', 0x13), (''colorjump'', 0x14)]"

text \<open>
  \<open>EFFECT_LIST = sorted(EFFECT_MAP)\<close>: the keys in order. The code only tests membership
  in it, so the order is written out rather than computed.
\<close>

definition EFFECT_LIST :: "string list" where
  "EFFECT_LIST =
    [''blue_fade'', ''blue_strobe'', ''colorjump'', ''colorloop'', ''colorstrobe'',
     ''cyan_fade'', ''cyan_strobe'', ''gb_cross_fade'', ''green_fade'', ''green_strobe'',
     ''purple_fade'', ''purple_strobe'', ''rb_cross_fade'', ''red_fade'', ''red_strobe'',
     ''rg_cross_fade'', ''white_fade'', ''white_strobe'', ''yellow_fade'',
     ''yellow_strobe'']"

definition NAME_ARRAY :: "string list" where
  "NAME_ARRAY = [''BJ_LED'']"

definition WRITE_CHARACTERISTIC_UUIDS :: "string list" where
  "WRITE_CHARACTERISTIC_UUIDS = [''0000ee01-0000-1000-8000-00805f9b34fb'']"

definition TURN_ON_CMD :: "byte list list" where
  "TURN_ON_CMD = [[0x69, 0x96, 0x02, 0x01, 0x01]]"

definition TURN_OFF_CMD :: "byte list list" where
  "TURN_OFF_CMD = [[0x69, 0x96, 0x02, 0x01, 0x00]]"

definition DEFAULT_ATTEMPTS :: nat where
  "DEFAULT_ATTEMPTS = 3"

definition BLEAK_BACKOFF_TIME :: rat where
  "BLEAK_BACKOFF_TIME = 1 / 4"

section \<open>Python primitives\<close>

text \<open>
  \<open>int(a / b)\<close> on integers with \<open>b \<noteq> 0\<close>: true division, then truncation towards zero.
  The quotient is a float; for the magnitudes that occur here (a product of two values
  of at most a few digits, divided by 255 or 100) a quotient that is not an integer is
  at least \<open>1/255\<close> away from the next one, far more than the rounding of a double, so
  the truncated float is the truncated exact quotient. For operands beyond the range of a
  double Python rounds the quotient or raises \<open>OverflowError\<close>; the function below does
  not, and nothing is proved with it outside brightness and channels in \<open>0..255\<close>.
\<close>

definition int_truediv :: "int \<Rightarrow> int \<Rightarrow> int" where
  "int_truediv a b = sgn a * sgn b * (\<bar>a\<bar> div \<bar>b\<bar>)"

text \<open>\<open>bytearray.append(v)\<close>: \<open>ValueError\<close> unless \<open>v\<close> is in \<open>range(256)\<close>.\<close>

definition bytearray_append :: "byte list \<Rightarrow> int \<Rightarrow> exn + byte list" where
  "bytearray_append bs v =
     (if 0 \<le> v \<and> v < 256 then Inr (bs @ [word_of_int v])
      else Inl (ValueError ''byte must be in range(0, 256)''))"

text \<open>\<open>str.lower()\<close> and \<open>str.startswith\<close>, on ASCII.\<close>

definition lower_char :: "char \<Rightarrow> char" where
  "lower_char c =
     (let n = (of_char c :: nat) in if 65 \<le> n \<and> n \<le> 90 then char_of (n + 32) else c)"

definition lower :: "string \<Rightarrow> string" where
  "lower s = map lower_char s"

definition startswith :: "string \<Rightarrow> string \<Rightarrow> bool" where
  "startswith s p = (take (length p) s = p)"

section \<open>Logging, sleeping, timers\<close>

definition LOGGER :: "level \<Rightarrow> string \<Rightarrow> 'z BJLEDInstance_scheme \<Rightarrow> 'z BJLEDInstance_scheme" where
  "LOGGER lvl msg s = s\<lparr>trace := trace s @ [Log lvl msg]\<rparr>"

text \<open>\<open>await asyncio.sleep(t)\<close>: a suspension point.\<close>

definition asyncio_sleep :: "rat \<Rightarrow> 'z BJLEDInstance_scheme \<Rightarrow> 'z BJLEDInstance_scheme" where
  "asyncio_sleep t s = s\<lparr>clock := Suc (clock s), trace := trace s @ [Sleep t]\<rparr>"

text \<open>\<open>TimerHandle.cancel()\<close>: the handle is no longer pending.\<close>

definition cancel :: "nat \<Rightarrow> (nat \<times> int) list \<Rightarrow> (nat \<times> int) list" where
  "cancel h ts = filter (\<lambda>t. fst t \<noteq> h) ts"

text \<open>\<open>self.loop.call_later(d, self._disconnect)\<close>: a fresh pending handle.\<close>

definition call_later :: "int \<Rightarrow> BJLEDInstance \<Rightarrow> nat \<times> BJLEDInstance" where
  "call_later d s =
     (next_handle s,
      s\<lparr>timers := timers s @ [(next_handle s, d)], next_handle := Suc (next_handle s)\<rparr>)"

section \<open>The retry decorator\<close>

text \<open>
  \<open>for attempt in range(attempts)\<close>, as recursion over the list of attempt numbers. The
  wrapped coroutine returns \<open>Inr v\<close> or raises \<open>Inl err\<close>; the wrapper returns
  \<open>Inr (Some v)\<close>, raises, or falls off the loop and returns \<open>None\<close>.
\<close>

fun retry_attempts ::
  "('z BJLEDInstance_scheme \<Rightarrow> (exn + 'a) \<times> 'z BJLEDInstance_scheme) \<Rightarrow> nat \<Rightarrow> nat list \<Rightarrow>
   'z BJLEDInstance_scheme \<Rightarrow> (exn + 'a option) \<times> 'z BJLEDInstance_scheme" where
  "retry_attempts func max_attempts [] s = (Inr None, s)"
| "retry_attempts func max_attempts (attempt # rest) s =
     (case func s of
        (Inr v, s1) \<Rightarrow> (Inr (Some v), s1)
      | (Inl err, s1) \<Rightarrow>
          if is_BleakNotFoundError err then (Inl err, s1)
          else if RETRY_BACKOFF_EXCEPTIONS err then
            (if attempt \<ge> max_attempts
             then (Inl err, LOGGER DEBUG ''error calling, reach max attempts'' s1)
             else retry_attempts func max_attempts rest
                    (asyncio_sleep BLEAK_BACKOFF_TIME
                       (LOGGER DEBUG ''error calling, backing off, retrying'' s1)))
          else if BLEAK_EXCEPTIONS err then
            (if attempt \<ge> max_attempts
             then (Inl err, LOGGER DEBUG ''error calling, reach max attempts'' s1)
             else retry_attempts func max_attempts rest
                    (LOGGER DEBUG ''error calling, retrying'' s1))
          else (Inl err, s1))"

definition retry_bluetooth_connection_error ::
  "('z BJLEDInstance_scheme \<Rightarrow> (exn + 'a) \<times> 'z BJLEDInstance_scheme) \<Rightarrow>
   'z BJLEDInstance_scheme \<Rightarrow> (exn + 'a option) \<times> 'z BJLEDInstance_scheme" where
  "retry_bluetooth_connection_error func s =
     (let attempts = DEFAULT_ATTEMPTS;
          max_attempts = attempts - 1
      in retry_attempts func max_attempts [0..<attempts] s)"

section \<open>Construction\<close>

text \<open>
  \<open>_detect_model\<close>: the index of the first name of \<open>NAME_ARRAY\<close> that the device name
  starts with (case ignored) selects the power packets; with no match the fields stay
  \<open>None\<close> and so does the model.
\<close>

fun detect_model_loop :: "string list \<Rightarrow> nat \<Rightarrow> BJLEDInstance \<Rightarrow> nat option \<times> BJLEDInstance" where
  "detect_model_loop [] x s = (None, s)"
| "detect_model_loop (name # names) x s =
     (if startswith (lower (device_name s)) (lower name)
      then (Some x, s\<lparr>turn_on_cmd := Some (TURN_ON_CMD ! x),
                      turn_off_cmd := Some (TURN_OFF_CMD ! x)\<rparr>)
      else detect_model_loop names (x + 1) s)"

definition detect_model :: "BJLEDInstance \<Rightarrow> nat option \<times> BJLEDInstance" where
  "detect_model s = detect_model_loop NAME_ARRAY 0 s"

text \<open>
  \<open>__init__\<close>, for a device that the Bluetooth integration knows (otherwise the
  constructor raises \<open>ConfigEntryNotReady\<close> and there is no session).
\<close>

definition init :: "string \<Rightarrow> int option \<Rightarrow> BJLEDInstance" where
  "init name d =
     (let s = \<lparr>device_name = name, delay = d, client = None, disconnect_timer = None,
               cached_services = None, expected_disconnect = False, is_on = None,
               rgb_color = None, brightness = Some 255, effect = None, write_uuid = None,
               read_uuid = None, turn_on_cmd = None, turn_off_cmd = None, model = None,
               clock = 0, timers = [], next_handle = 0, trace = []\<rparr>;
          (m, s1) = detect_model s;
          s2 = s1\<lparr>model := m\<rparr>
      in LOGGER DEBUG ''Model information for device'' s2)"

section \<open>Idle-disconnect timer\<close>

definition reset_disconnect_timer :: "BJLEDInstance \<Rightarrow> BJLEDInstance" where
  "reset_disconnect_timer s =
     (let s1 = (case disconnect_timer s of
                  Some h \<Rightarrow> s\<lparr>timers := cancel h (timers s)\<rparr>
                | None \<Rightarrow> s);
          s2 = s1\<lparr>expected_disconnect := False\<rparr>
      in if delay s2 \<noteq> None \<and> delay s2 \<noteq> Some 0
         then (let s3 = LOGGER DEBUG ''Configured disconnect from device in seconds'' s2;
                   (h, s4) = call_later (the (delay s3)) s3
               in s4\<lparr>disconnect_timer := Some h\<rparr>)
         else s2)"

section \<open>Connection\<close>

text \<open>
  \<open>_resolve_characteristics\<close>: the loop over \<open>WRITE_CHARACTERISTIC_UUIDS\<close> stops at the
  first UUID the services hold. The loop over the notify UUIDs is commented out in the
  source, and the result still asks for both handles.
\<close>

fun resolve_write :: "string list \<Rightarrow> services \<Rightarrow> BJLEDInstance \<Rightarrow> BJLEDInstance" where
  "resolve_write [] svcs s = s"
| "resolve_write (characteristic # rest) svcs s =
     (case get_characteristic svcs characteristic of
        Some char \<Rightarrow> s\<lparr>write_uuid := Some char\<rparr>
      | None \<Rightarrow> resolve_write rest svcs s)"

definition resolve_characteristics :: "services \<Rightarrow> BJLEDInstance \<Rightarrow> bool \<times> BJLEDInstance" where
  "resolve_characteristics svcs s =
     (let s1 = resolve_write WRITE_CHARACTERISTIC_UUIDS svcs s
      in (read_uuid s1 \<noteq> None \<and> write_uuid s1 \<noteq> None, s1))"

text \<open>\<open>self._client and self._client.is_connected\<close>\<close>

definition live :: "transport \<Rightarrow> BJLEDInstance \<Rightarrow> bool" where
  "live env s = (client s \<noteq> None \<and> is_connected env (clock s))"

definition ensure_connected :: "transport \<Rightarrow> BJLEDInstance \<Rightarrow> (exn + unit) \<times> BJLEDInstance" where
  "ensure_connected env s =
     (if live env s then (Inr (), reset_disconnect_timer s)
      else if live env s then (Inr (), reset_disconnect_timer s)
      else
        (let s1 = LOGGER DEBUG ''Connecting'' s;
             n = clock s1;
             s2 = s1\<lparr>clock := Suc n, trace := trace s1 @ [EstablishConnection (cached_services s1)]\<rparr>
         in case establish_connection env n of
              Inl err \<Rightarrow> (Inl err, s2)
            | Inr c \<Rightarrow>
                (let s3 = LOGGER DEBUG ''Connected'' s2;
                     (resolved, s4) = resolve_characteristics (services c) s3;
                     (resolved, s5) = (if \<not> resolved
                                       then resolve_characteristics (services c) s4
                                       else (resolved, s4));
                     s6 = s5\<lparr>cached_services := (if resolved then Some (services c) else None)\<rparr>;
                     s7 = s6\<lparr>client := Some c\<rparr>
                 in (Inr (), reset_disconnect_timer s7))))"

definition write_while_connected ::
  "transport \<Rightarrow> byte list option \<Rightarrow> BJLEDInstance \<Rightarrow> (exn + unit) \<times> BJLEDInstance" where
  "write_while_connected env data s =
     (let s1 = LOGGER DEBUG ''Writing data'' s
      in case client s1 of
           None \<Rightarrow> (Inl (AttributeError ''NoneType object has no attribute write_gatt_char''), s1)
         | Some c \<Rightarrow>
             (let n = clock s1;
                  s2 = s1\<lparr>clock := Suc n, trace := trace s1 @ [WriteGattChar c (write_uuid s1) data]\<rparr>
              in case write_gatt_char env n of
                   Some err \<Rightarrow> (Inl err, s2)
                 | None \<Rightarrow> (Inr (), s2)))"

definition write_data ::
  "transport \<Rightarrow> byte list option \<Rightarrow> BJLEDInstance \<Rightarrow> (exn + unit) \<times> BJLEDInstance" where
  "write_data env data s =
     (case ensure_connected env s of
        (Inl err, s1) \<Rightarrow> (Inl err, s1)
      | (Inr u, s1) \<Rightarrow> write_while_connected env data s1)"

section \<open>Disconnection\<close>

definition disconnected :: "BJLEDInstance \<Rightarrow> BJLEDInstance" where
  "disconnected s =
     (if expected_disconnect s then LOGGER DEBUG ''Disconnected from device'' s
      else LOGGER WARNING ''Device unexpectedly disconnected'' s)"

definition execute_disconnect :: "transport \<Rightarrow> BJLEDInstance \<Rightarrow> (exn + unit) \<times> BJLEDInstance" where
  "execute_disconnect env s =
     (let held = client s;
          s1 = s\<lparr>expected_disconnect := True\<rparr>;
          s2 = s1\<lparr>client := None\<rparr>;
          s3 = s2\<lparr>write_uuid := None\<rparr>
      in if held \<noteq> None \<and> is_connected env (clock s3)
         then (let n = clock s3;
                   s4 = s3\<lparr>clock := Suc n, trace := trace s3 @ [ClientDisconnect (the held)]\<rparr>
               in case client_disconnect env n of
                    Some err \<Rightarrow> (Inl err, s4)
                  | None \<Rightarrow> (Inr (), LOGGER DEBUG ''Disconnected'' s4))
         else (Inr (), LOGGER DEBUG ''Disconnected'' s3))"

definition execute_timed_disconnect ::
  "transport \<Rightarrow> BJLEDInstance \<Rightarrow> (exn + unit) \<times> BJLEDInstance" where
  "execute_timed_disconnect env s =
     execute_disconnect env (LOGGER DEBUG ''Disconnecting after timeout'' s)"

definition stop :: "transport \<Rightarrow> BJLEDInstance \<Rightarrow> (exn + unit) \<times> BJLEDInstance" where
  "stop env s = execute_disconnect env (LOGGER DEBUG ''Stop'' s)"

text \<open>
  \<open>_disconnect\<close>, the timer's callback: it forgets the handle and starts
  \<open>_execute_timed_disconnect\<close> as a task. The pair returned is the outcome of that task
  (an exception stays in the task) and the state once it has run.
\<close>

definition disconnect :: "transport \<Rightarrow> BJLEDInstance \<Rightarrow> (exn + unit) \<times> BJLEDInstance" where
  "disconnect env s = execute_timed_disconnect env (s\<lparr>disconnect_timer := None\<rparr>)"

text \<open>The loop runs the callback of a pending handle, which leaves the pending ones.\<close>

definition timer_fires :: "transport \<Rightarrow> nat \<Rightarrow> BJLEDInstance \<Rightarrow> (exn + unit) \<times> BJLEDInstance" where
  "timer_fires env h s =
     (if h \<in> fst ` set (timers s)
      then disconnect env (s\<lparr>timers := cancel h (timers s)\<rparr>)
      else (Inr (), s))"

section \<open>Commands\<close>

text \<open>
  Each command is a coroutine under \<open>@retry_bluetooth_connection_error\<close>: the body is
  named \<open>_body\<close> here and the decorated method keeps the Python name.
\<close>

definition set_rgb_color_body ::
  "transport \<Rightarrow> int \<times> int \<times> int \<Rightarrow> int option \<Rightarrow> BJLEDInstance \<Rightarrow> (exn + unit) \<times> BJLEDInstance" where
  "set_rgb_color_body env rgb br s =
     (let s1 = s\<lparr>rgb_color := Some rgb\<rparr>;
          (br1, s2) = (if br = None
                       then (if brightness s1 = None then (br, s1\<lparr>brightness := Some 255\<rparr>)
                             else (brightness s1, s1))
                       else (br, s1))
      in case br1 of
           None \<Rightarrow> (Inl (TypeError ''unsupported operand type(s) for *: NoneType and int''), s2)
         | Some b \<Rightarrow>
             (let brightness_percent = int_truediv (b * 100) 255;
                  red = int_truediv (fst rgb * brightness_percent) 100;
                  green = int_truediv (fst (snd rgb) * brightness_percent) 100;
                  blue = int_truediv (snd (snd rgb) * brightness_percent) 100
              in case bytearray_append [0x69, 0x96, 0x05, 0x02] red of
                   Inl err \<Rightarrow> (Inl err, s2)
                 | Inr p1 \<Rightarrow>
                     (case bytearray_append p1 green of
                        Inl err \<Rightarrow> (Inl err, s2)
                      | Inr p2 \<Rightarrow>
                          (case bytearray_append p2 blue of
                             Inl err \<Rightarrow> (Inl err, s2)
                           | Inr rgb_packet \<Rightarrow> write_data env (Some rgb_packet) s2))))"

definition set_rgb_color ::
  "transport \<Rightarrow> int \<times> int \<times> int \<Rightarrow> int option \<Rightarrow> BJLEDInstance \<Rightarrow>
   (exn + unit option) \<times> BJLEDInstance" where
  "set_rgb_color env rgb br = retry_bluetooth_connection_error (set_rgb_color_body env rgb br)"

definition turn_on_body :: "transport \<Rightarrow> BJLEDInstance \<Rightarrow> (exn + unit) \<times> BJLEDInstance" where
  "turn_on_body env s =
     (case write_data env (turn_on_cmd s) s of
        (Inl err, s1) \<Rightarrow> (Inl err, s1)
      | (Inr u, s1) \<Rightarrow> (Inr (), s1\<lparr>is_on := Some True\<rparr>))"

definition turn_on :: "transport \<Rightarrow> BJLEDInstance \<Rightarrow> (exn + unit option) \<times> BJLEDInstance" where
  "turn_on env = retry_bluetooth_connection_error (turn_on_body env)"

definition turn_off_body :: "transport \<Rightarrow> BJLEDInstance \<Rightarrow> (exn + unit) \<times> BJLEDInstance" where
  "turn_off_body env s =
     (case write_data env (turn_off_cmd s) s of
        (Inl err, s1) \<Rightarrow> (Inl err, s1)
      | (Inr u, s1) \<Rightarrow> (Inr (), s1\<lparr>is_on := Some False\<rparr>))"

definition turn_off :: "transport \<Rightarrow> BJLEDInstance \<Rightarrow> (exn + unit option) \<times> BJLEDInstance" where
  "turn_off env = retry_bluetooth_connection_error (turn_off_body env)"

definition set_effect_body ::
  "transport \<Rightarrow> string \<Rightarrow> BJLEDInstance \<Rightarrow> (exn + unit) \<times> BJLEDInstance" where
  "set_effect_body env eff s =
     (if eff \<notin> set EFFECT_LIST then (Inr (), LOGGER ERROR ''Effect not supported'' s)
      else
        (let s1 = s\<lparr>effect := Some eff\<rparr>;
             effect_id = map_of EFFECT_MAP eff;
             s2 = LOGGER DEBUG ''Effect name'' (LOGGER DEBUG ''Effect ID'' s1)
         in case effect_id of
              None \<Rightarrow> (Inl (TypeError ''NoneType object cannot be interpreted as an integer''), s2)
            | Some code \<Rightarrow>
                (case bytearray_append [0x69, 0x96, 0x03, 0x03] code of
                   Inl err \<Rightarrow> (Inl err, s2)
                 | Inr p1 \<Rightarrow>
                     (case bytearray_append p1 0x01 of
                        Inl err \<Rightarrow> (Inl err, s2)
                      | Inr effect_packet \<Rightarrow> write_data env (Some effect_packet) s2))))"

definition set_effect ::
  "transport \<Rightarrow> string \<Rightarrow> BJLEDInstance \<Rightarrow> (exn + unit option) \<times> BJLEDInstance" where
  "set_effect env eff = retry_bluetooth_connection_error (set_effect_body env eff)"

section \<open>Brightness\<close>

text \<open>
  \<open>normalize_brightness\<close> stores the clamped brightness and returns it as a percentage.
  With \<open>None\<close> passed and a stored brightness of at most 1 neither branch assigns, and
  the comparison \<open>None < 2\<close> raises.
\<close>

definition normalize_brightness :: "int option \<Rightarrow> BJLEDInstance \<Rightarrow> (exn + int) \<times> BJLEDInstance" where
  "normalize_brightness new_brightness s =
     (let s0 = LOGGER DEBUG ''New brightness passed IN''
                 (LOGGER DEBUG ''Doing Normalizing brightness function'' s);
          nb1 = (if new_brightness = None \<and> brightness s0 = None then Some 255
                 else if new_brightness = None \<and> the (brightness s0) > 1 then brightness s0
                 else new_brightness)
      in case nb1 of
           None \<Rightarrow> (Inl (TypeError ''< not supported between NoneType and int''), s0)
         | Some nb \<Rightarrow>
             (let nb2 = (if nb < 2 then 2 else nb);
                  nb3 = (if nb2 > 255 then 255 else nb2);
                  s1 = LOGGER DEBUG ''New brightness (0-255)'' s0;
                  s2 = s1\<lparr>brightness := Some nb3\<rparr>;
                  new_percentage = int_truediv (nb3 * 100) 255;
                  s3 = LOGGER DEBUG ''Normalized brightness percent'' s2
              in (Inr new_percentage, s3)))"

section \<open>Observations and sample data\<close>

text \<open>The payloads of the characteristic writes in a trace, in order.\<close>

fun written :: "event list \<Rightarrow> byte list option list" where
  "written [] = []"
| "written (WriteGattChar c u d # es) = d # written es"
| "written (e # es) = written es"


text \<open>
  A controller that answers: the connection is made, its services hold the write
  characteristic, the link stays up and every call succeeds. Then the same with every
  write failing. \<open>fresh\<close> is a session just constructed for a device named \<open>BJ_LED\<close>,
  with an idle delay of 5 seconds.
\<close>

definition bj_client :: client where
  "bj_client = BleakClientWithServiceCache WRITE_CHARACTERISTIC_UUIDS"

definition link_ok :: transport where
  "link_ok = \<lparr>establish_connection = (\<lambda>n. Inr bj_client), is_connected = (\<lambda>n. True),
              write_gatt_char = (\<lambda>n. None), client_disconnect = (\<lambda>n. None)\<rparr>"

definition link_write_fails :: transport where
  "link_write_fails = link_ok\<lparr>write_gatt_char := (\<lambda>n. Some (BleakError ''write failed''))\<rparr>"

definition fresh :: BJLEDInstance where
  "fresh = init ''BJ_LED'' (Some 5)"

text \<open>The scaled channel as the specification writes it, with floor division.\<close>

definition spec_scaled :: "int \<Rightarrow> int \<Rightarrow> int" where
  "spec_scaled channel b = channel * (b * 100 div 255) div 100"

text \<open>
  More sample transports: a device whose services lack the write characteristic, one whose
  disconnect call fails, one that is not found, one whose writes fail with a different
  error at each attempt, and one whose first write fails. \<open>connected\<close> is the fresh
  session after a first connection.
\<close>

definition link_no_characteristic :: transport where
  "link_no_characteristic =
     link_ok\<lparr>establish_connection := (\<lambda>n. Inr (BleakClientWithServiceCache []))\<rparr>"

definition link_disconnect_fails :: transport where
  "link_disconnect_fails =
     link_ok\<lparr>client_disconnect := (\<lambda>n. Some (BleakError ''disconnect failed''))\<rparr>"

definition link_not_found :: transport where
  "link_not_found =
     link_ok\<lparr>establish_connection := (\<lambda>n. Inl (BleakNotFoundError ''device not found''))\<rparr>"

definition link_flaky :: transport where
  "link_flaky =
     link_ok\<lparr>write_gatt_char :=
       (\<lambda>n. if n = 1 then Some (BleakDBusError ''busy'')
            else if n = 3 then Some (BleakError ''lost'')
            else Some (TimeoutError ''timeout''))\<rparr>"

definition link_second_try :: transport where
  "link_second_try =
     link_ok\<lparr>write_gatt_char := (\<lambda>n. if n = 1 then Some (BleakDBusError ''busy'') else None)\<rparr>"

definition connected :: BJLEDInstance where
  "connected = snd (ensure_connected link_ok fresh)"

text \<open>
  At most one idle timer is pending, and it is the one the session holds in
  \<open>_disconnect_timer\<close>.
\<close>

definition one_timer :: "BJLEDInstance \<Rightarrow> bool" where
  "one_timer s =
     (length (timers s) \<le> 1 \<and> list_all (\<lambda>t. disconnect_timer s = Some (fst t)) (timers s))"

text \<open>
  A probe for the number of calls the decorator makes: the wrapped coroutine runs on the
  session and the count is kept beside it, in the extension of the record, where neither
  the coroutine nor the decorator can read or write it.
\<close>

definition counted ::
  "(BJLEDInstance \<Rightarrow> (exn + 'a) \<times> BJLEDInstance) \<Rightarrow>
   nat BJLEDInstance_scheme \<Rightarrow> (exn + 'a) \<times> nat BJLEDInstance_scheme" where
  "counted func s =
     (case func (BJLEDInstance.truncate s) of
        (r, s') \<Rightarrow> (r, BJLEDInstance.extend s' (Suc (BJLEDInstance.more s))))"

text \<open>
  The errors after which the decorator goes on to the next attempt, and what it does
  between two attempts: it logs, and after a back-off error it sleeps.
\<close>

definition retryable :: "exn \<Rightarrow> bool" where
  "retryable e = (\<not> is_BleakNotFoundError e \<and> (RETRY_BACKOFF_EXCEPTIONS e \<or> BLEAK_EXCEPTIONS e))"

definition before_next_attempt :: "exn \<Rightarrow> 'z BJLEDInstance_scheme \<Rightarrow> 'z BJLEDInstance_scheme" where
  "before_next_attempt e s =
     (if RETRY_BACKOFF_EXCEPTIONS e
      then asyncio_sleep BLEAK_BACKOFF_TIME (LOGGER DEBUG ''error calling, backing off, retrying'' s)
      else LOGGER DEBUG ''error calling, retrying'' s)"

text \<open>The states of \<open>turn_on\<close> on \<open>link_flaky\<close> after each of its three attempts.\<close>

definition flaky1 :: BJLEDInstance where
  "flaky1 = snd (turn_on_body link_flaky fresh)"

definition flaky2 :: BJLEDInstance where
  "flaky2 = snd (turn_on_body link_flaky (before_next_attempt (BleakDBusError ''busy'') flaky1))"

definition flaky3 :: BJLEDInstance where
  "flaky3 = snd (turn_on_body link_flaky (before_next_attempt (BleakError ''lost'') flaky2))"

section \<open>Auxiliary lemmas\<close>

lemma written_append [simp]: "written (xs @ ys) = written xs @ written ys"
  by (induction xs rule: written.induct) auto

subsection \<open>Frames\<close>

lemma reset_disconnect_timer_frame:
  "client (reset_disconnect_timer s) = client s \<and>
   write_uuid (reset_disconnect_timer s) = write_uuid s \<and>
   read_uuid (reset_disconnect_timer s) = read_uuid s \<and>
   cached_services (reset_disconnect_timer s) = cached_services s \<and>
   is_on (reset_disconnect_timer s) = is_on s \<and>
   rgb_color (reset_disconnect_timer s) = rgb_color s \<and>
   brightness (reset_disconnect_timer s) = brightness s \<and>
   effect (reset_disconnect_timer s) = effect s \<and>
   clock (reset_disconnect_timer s) = clock s \<and>
   written (trace (reset_disconnect_timer s)) = written (trace s)"
  by (simp add: reset_disconnect_timer_def call_later_def LOGGER_def Let_def
           split: option.splits)

lemma resolve_write_frame:
  "client (resolve_write us svcs s) = client s \<and>
   read_uuid (resolve_write us svcs s) = read_uuid s \<and>
   is_on (resolve_write us svcs s) = is_on s \<and>
   rgb_color (resolve_write us svcs s) = rgb_color s \<and>
   brightness (resolve_write us svcs s) = brightness s \<and>
   effect (resolve_write us svcs s) = effect s \<and>
   clock (resolve_write us svcs s) = clock s \<and>
   disconnect_timer (resolve_write us svcs s) = disconnect_timer s \<and>
   timers (resolve_write us svcs s) = timers s \<and>
   next_handle (resolve_write us svcs s) = next_handle s \<and>
   delay (resolve_write us svcs s) = delay s \<and>
   trace (resolve_write us svcs s) = trace s"
  by (induction us) (simp_all split: option.splits)

lemma resolve_characteristics_frame:
  "client (snd (resolve_characteristics svcs s)) = client s \<and>
   read_uuid (snd (resolve_characteristics svcs s)) = read_uuid s \<and>
   is_on (snd (resolve_characteristics svcs s)) = is_on s \<and>
   rgb_color (snd (resolve_characteristics svcs s)) = rgb_color s \<and>
   brightness (snd (resolve_characteristics svcs s)) = brightness s \<and>
   effect (snd (resolve_characteristics svcs s)) = effect s \<and>
   clock (snd (resolve_characteristics svcs s)) = clock s \<and>
   disconnect_timer (snd (resolve_characteristics svcs s)) = disconnect_timer s \<and>
   timers (snd (resolve_characteristics svcs s)) = timers s \<and>
   next_handle (snd (resolve_characteristics svcs s)) = next_handle s \<and>
   delay (snd (resolve_characteristics svcs s)) = delay s \<and>
   trace (snd (resolve_characteristics svcs s)) = trace s"
  by (simp add: resolve_characteristics_def Let_def resolve_write_frame)

lemma ensure_connected_frame:
  "is_on (snd (ensure_connected env s)) = is_on s \<and>
   rgb_color (snd (ensure_connected env s)) = rgb_color s \<and>
   brightness (snd (ensure_connected env s)) = brightness s \<and>
   effect (snd (ensure_connected env s)) = effect s \<and>
   read_uuid (snd (ensure_connected env s)) = read_uuid s \<and>
   written (trace (snd (ensure_connected env s))) = written (trace s)"
  by (simp add: ensure_connected_def Let_def LOGGER_def reset_disconnect_timer_frame
        resolve_characteristics_frame case_prod_beta split: sum.splits)

lemma ensure_connected_client:
  "fst (ensure_connected env s) = Inr u \<Longrightarrow> client (snd (ensure_connected env s)) \<noteq> None"
  by (auto simp: ensure_connected_def Let_def LOGGER_def reset_disconnect_timer_frame live_def
        resolve_characteristics_frame case_prod_beta split: sum.splits if_splits)

lemma write_while_connected_frame:
  "is_on (snd (write_while_connected env d s)) = is_on s \<and>
   rgb_color (snd (write_while_connected env d s)) = rgb_color s \<and>
   brightness (snd (write_while_connected env d s)) = brightness s \<and>
   effect (snd (write_while_connected env d s)) = effect s \<and>
   read_uuid (snd (write_while_connected env d s)) = read_uuid s"
  by (simp add: write_while_connected_def Let_def LOGGER_def split: option.splits)

lemma write_while_connected_written:
  "written (trace (snd (write_while_connected env d s))) =
     written (trace s) @ (if client s = None then [] else [d])"
  by (simp add: write_while_connected_def Let_def LOGGER_def split: option.splits)

lemma write_while_connected_ok:
  "fst (write_while_connected env d s) = Inr u \<Longrightarrow> client s \<noteq> None"
  by (auto simp: write_while_connected_def Let_def LOGGER_def split: option.splits)

lemma write_data_frame:
  "is_on (snd (write_data env d s)) = is_on s \<and>
   rgb_color (snd (write_data env d s)) = rgb_color s \<and>
   brightness (snd (write_data env d s)) = brightness s \<and>
   effect (snd (write_data env d s)) = effect s \<and>
   read_uuid (snd (write_data env d s)) = read_uuid s"
proof (cases "ensure_connected env s")
  case (Pair r s1)
  then show ?thesis
    using ensure_connected_frame [of env s] write_while_connected_frame [of env d s1]
    by (cases r) (simp_all add: write_data_def)
qed

lemma write_data_written:
  "\<exists>ws. written (trace (snd (write_data env d s))) = written (trace s) @ ws \<and>
        set ws \<subseteq> {d} \<and> length ws \<le> 1 \<and> (fst (write_data env d s) = Inr () \<longrightarrow> ws \<noteq> [])"
proof (cases "ensure_connected env s")
  case (Pair r s1)
  show ?thesis
  proof (cases r)
    case (Inl err)
    then show ?thesis
      using Pair ensure_connected_frame [of env s] by (simp add: write_data_def)
  next
    case (Inr u)
    have c: "client s1 \<noteq> None"
      using ensure_connected_client [of env s u] Pair Inr by simp
    show ?thesis
      using Pair Inr c ensure_connected_frame [of env s]
        write_while_connected_written [of env d s1]
      by (auto simp: write_data_def)
  qed
qed


subsection \<open>The retry loop\<close>

lemma retry_attempts_keeps:
  assumes func: "\<And>s. P (snd (func s))"
    and log: "\<And>l m s. P s \<Longrightarrow> P (LOGGER l m s)"
    and sleep: "\<And>t s. P s \<Longrightarrow> P (asyncio_sleep t s)"
  shows "P s \<Longrightarrow> P (snd (retry_attempts func m xs s))"
proof (induction xs arbitrary: s)
  case Nil
  then show ?case by simp
next
  case (Cons a xs)
  obtain r s1 where f: "func s = (r, s1)" by (cases "func s")
  have p1: "P s1" using func [of s] f by simp
  show ?case
  proof (cases r)
    case (Inr v)
    then show ?thesis using f p1 by simp
  next
    case (Inl err)
    then show ?thesis
      using f p1 log sleep Cons.IH by simp
  qed
qed

lemma retry_attempts_always:
  assumes func: "\<And>s. P (snd (func s))"
    and log: "\<And>l m s. P s \<Longrightarrow> P (LOGGER l m s)"
    and sleep: "\<And>t s. P s \<Longrightarrow> P (asyncio_sleep t s)"
  shows "xs \<noteq> [] \<Longrightarrow> P (snd (retry_attempts func m xs s))"
proof (cases xs)
  case Nil
  assume "xs \<noteq> []"
  with Nil show ?thesis by simp
next
  case (Cons a ys)
  obtain r s1 where f: "func s = (r, s1)" by (cases "func s")
  have p1: "P s1" using func [of s] f by simp
  have rest: "\<And>s'. P s' \<Longrightarrow> P (snd (retry_attempts func m ys s'))"
    using retry_attempts_keeps [of P func, OF func log sleep] by blast
  show ?thesis
  proof (cases r)
    case (Inr v)
    then show ?thesis using f p1 Cons by simp
  next
    case (Inl err)
    then show ?thesis
      using f p1 log sleep rest Cons by simp
  qed
qed

lemma retry_attempts_raised:
  assumes func: "\<And>s e s'. func s = (Inl e, s') \<Longrightarrow> f s' = f s"
    and log: "\<And>l m s. f (LOGGER l m s) = f s"
    and sleep: "\<And>t s. f (asyncio_sleep t s) = f s"
  shows "retry_attempts func m xs s = (Inl e, s') \<Longrightarrow> f s' = f s"
proof (induction xs arbitrary: s)
  case Nil
  then show ?case by simp
next
  case (Cons a xs)
  obtain r s1 where f: "func s = (r, s1)" by (cases "func s")
  show ?case
  proof (cases r)
    case (Inr v)
    then show ?thesis using f Cons.prems by simp
  next
    case (Inl err)
    have f1: "f s1 = f s" using func f Inl by simp
    show ?thesis
      using f Inl f1 Cons.prems Cons.IH log sleep
      by (auto split: if_splits)
  qed
qed

lemma retry_attempts_returned:
  assumes func: "\<And>s v s'. func s = (Inr v, s') \<Longrightarrow> Q s'"
  shows "retry_attempts func m xs s = (Inr (Some v), s') \<Longrightarrow> Q s'"
proof (induction xs arbitrary: s)
  case Nil
  then show ?case by simp
next
  case (Cons a xs)
  obtain r s1 where f: "func s = (r, s1)" by (cases "func s")
  show ?case
  proof (cases r)
    case (Inr w)
    then show ?thesis using f Cons.prems func by auto
  next
    case (Inl err)
    show ?thesis
      using f Inl Cons.prems Cons.IH
      by (auto split: if_splits)
  qed
qed

lemma retry_attempts_last:
  "m \<le> a \<Longrightarrow> fst (retry_attempts func m (a # xs) s) \<noteq> Inr None"
  by (cases "func s") (auto split: sum.splits)

lemma upt_3: "[0..<3] = [0, 1, 2::nat]"
  by (simp add: upt_rec)

lemma retry_never_falls_through:
  "fst (retry_bluetooth_connection_error func s) \<noteq> Inr None"
proof -
  have 3: "fst (retry_attempts func 2 [2] s3) \<noteq> Inr None" for s3
    by (rule retry_attempts_last) simp
  have 2: "fst (retry_attempts func 2 [1, 2] s2) \<noteq> Inr None" for s2
    using 3 by (cases "func s2") (auto split: sum.splits)
  have 1: "fst (retry_attempts func 2 [0, 1, 2] s) \<noteq> Inr None"
    using 2 by (cases "func s") (auto split: sum.splits)
  show ?thesis
    using 1 by (simp add: retry_bluetooth_connection_error_def DEFAULT_ATTEMPTS_def upt_3)
qed

lemma written_LOGGER [simp]: "written (trace (LOGGER l m s)) = written (trace s)"
  by (simp add: LOGGER_def)

lemma written_sleep [simp]: "written (trace (asyncio_sleep t s)) = written (trace s)"
  by (simp add: asyncio_sleep_def)

lemma retry_attempts_written:
  assumes func: "\<And>s. \<exists>ws. written (trace (snd (func s))) = written (trace s) @ ws \<and>
                   set ws \<subseteq> A \<and> length ws \<le> 1 \<and> ((\<exists>v. fst (func s) = Inr v) \<longrightarrow> ws \<noteq> [])"
  shows "\<exists>ws. written (trace (snd (retry_attempts func m xs s))) = written (trace s) @ ws \<and>
           set ws \<subseteq> A \<and> length ws \<le> length xs \<and>
           ((\<exists>v. fst (retry_attempts func m xs s) = Inr (Some v)) \<longrightarrow> ws \<noteq> [])"
proof (induction xs arbitrary: s)
  case Nil
  then show ?case by simp
next
  case (Cons a xs)
  obtain r s1 where f: "func s = (r, s1)" by (cases "func s")
  obtain ws1 where w1: "written (trace s1) = written (trace s) @ ws1" "set ws1 \<subseteq> A"
    "length ws1 \<le> 1" "(\<exists>v. r = Inr v) \<longrightarrow> ws1 \<noteq> []"
    using func [of s] f by auto
  show ?case
  proof (cases r)
    case (Inr v)
    then show ?thesis using f w1 by auto
  next
    case (Inl err)
    let ?sa = "asyncio_sleep BLEAK_BACKOFF_TIME (LOGGER DEBUG ''error calling, backing off, retrying'' s1)"
    let ?sb = "LOGGER DEBUG ''error calling, retrying'' s1"
    have stop: "\<exists>ws. written (trace s1) = written (trace s) @ ws \<and> set ws \<subseteq> A \<and>
                  length ws \<le> length (a # xs)"
      using w1 by auto
    have go: "\<exists>ws. written (trace (snd (retry_attempts func m xs s2))) = written (trace s) @ ws \<and>
           set ws \<subseteq> A \<and> length ws \<le> length (a # xs) \<and>
           ((\<exists>v. fst (retry_attempts func m xs s2) = Inr (Some v)) \<longrightarrow> ws \<noteq> [])"
      if "written (trace s2) = written (trace s1)" for s2
    proof -
      obtain ws2 where w2: "written (trace (snd (retry_attempts func m xs s2))) = written (trace s2) @ ws2"
        "set ws2 \<subseteq> A" "length ws2 \<le> length xs"
        "(\<exists>v. fst (retry_attempts func m xs s2) = Inr (Some v)) \<longrightarrow> ws2 \<noteq> []"
        using Cons.IH [of s2] by auto
      show ?thesis
        using w1 w2 that by (intro exI [of _ "ws1 @ ws2"]) auto
    qed
    show ?thesis
      using f Inl stop go [of ?sa] go [of ?sb] by simp
  qed
qed



lemma int_truediv_nonneg: "0 \<le> a \<Longrightarrow> 0 < b \<Longrightarrow> int_truediv a b = a div b"
  by (cases "a = 0") (simp_all add: int_truediv_def)

subsection \<open>Effects, colours and cached state\<close>

lemma EFFECT_MAP_entry:
  assumes "map_of EFFECT_MAP eff = Some code"
  shows "eff \<in> set EFFECT_LIST \<and> 0 \<le> code \<and> code < 256"
proof -
  have "(eff, code) \<in> set EFFECT_MAP"
    using assms by (rule map_of_SomeD)
  then show ?thesis
    by (auto simp: EFFECT_MAP_def EFFECT_LIST_def)
qed

lemma EFFECT_LIST_entry:
  assumes "eff \<in> set EFFECT_LIST"
  shows "\<exists>code. map_of EFFECT_MAP eff = Some code"
  using assms by (auto simp: EFFECT_MAP_def EFFECT_LIST_def)

lemma set_effect_body_effect:
  "eff \<in> set EFFECT_LIST \<Longrightarrow> effect (snd (set_effect_body env eff s)) = Some eff"
  by (simp add: set_effect_body_def Let_def LOGGER_def write_data_frame
        split: option.splits sum.splits)

lemma set_effect_body_written:
  assumes "map_of EFFECT_MAP eff = Some code"
  shows "\<exists>ws. written (trace (snd (set_effect_body env eff s))) = written (trace s) @ ws \<and>
           set ws \<subseteq> {Some [0x69, 0x96, 0x03, 0x03, word_of_int code, 0x01]} \<and>
           length ws \<le> 1 \<and> ((\<exists>v. fst (set_effect_body env eff s) = Inr v) \<longrightarrow> ws \<noteq> [])"
proof -
  let ?s2 = "LOGGER DEBUG ''Effect name'' (LOGGER DEBUG ''Effect ID'' (s\<lparr>effect := Some eff\<rparr>))"
  let ?pkt = "[0x69, 0x96, 0x03, 0x03, word_of_int code, 0x01] :: byte list"
  have e: "eff \<in> set EFFECT_LIST" "0 \<le> code" "code < 256"
    using EFFECT_MAP_entry [OF assms] by simp_all
  have body: "set_effect_body env eff s = write_data env (Some ?pkt) ?s2"
    using e assms by (simp add: set_effect_body_def Let_def bytearray_append_def)
  have w: "written (trace ?s2) = written (trace s)"
    by (simp add: LOGGER_def)
  show ?thesis
    using write_data_written [of env "Some ?pkt" ?s2] w by (simp add: body)
qed

lemma effect_LOGGER: "effect (LOGGER l m s) = effect s"
  by (simp add: LOGGER_def)

lemma effect_sleep: "effect (asyncio_sleep t s) = effect s"
  by (simp add: asyncio_sleep_def)

lemma EFFECT_MAP_distinct: "distinct (map fst EFFECT_MAP) \<and> distinct (map snd EFFECT_MAP)"
  by (simp add: EFFECT_MAP_def)

lemma EFFECT_MAP_codes: "c \<in> set (map snd EFFECT_MAP) \<longleftrightarrow> 0 \<le> c \<and> c \<le> 0x14 \<and> c \<noteq> 0x0b"
  by (simp add: EFFECT_MAP_def) arith

lemma retry_unfold:
  "retry_bluetooth_connection_error func s = retry_attempts func 2 [0, 1, 2] s"
  by (simp add: retry_bluetooth_connection_error_def DEFAULT_ATTEMPTS_def upt_3
        del: retry_attempts.simps)

lemma set_effect_written:
  "map_of EFFECT_MAP eff = Some code \<Longrightarrow>
     (\<exists>ws. written (trace (snd (set_effect env eff s))) = written (trace s) @ ws \<and>
        set ws \<subseteq> {Some [0x69, 0x96, 0x03, 0x03, word_of_int code, 0x01]} \<and>
        length ws \<le> 3 \<and>
        (fst (set_effect env eff s) = Inr (Some ()) \<longrightarrow> ws \<noteq> [])) \<and>
     0 \<le> code \<and> code \<le> 0x14 \<and> code \<noteq> 0x0b"
proof -
  assume m: "map_of EFFECT_MAP eff = Some code"
  have "(eff, code) \<in> set EFFECT_MAP"
    using m by (rule map_of_SomeD)
  then have "code \<in> set (map snd EFFECT_MAP)"
    by force
  then have c: "0 \<le> code \<and> code \<le> 0x14 \<and> code \<noteq> 0x0b"
    using EFFECT_MAP_codes by blast
  have w: "\<exists>ws. written (trace (snd (retry_attempts (set_effect_body env eff) 2 [0, 1, 2] s))) =
              written (trace s) @ ws \<and>
           set ws \<subseteq> {Some [0x69, 0x96, 0x03, 0x03, word_of_int code, 0x01]} \<and>
           length ws \<le> length [0, 1, 2::nat] \<and>
           ((\<exists>v. fst (retry_attempts (set_effect_body env eff) 2 [0, 1, 2] s) = Inr (Some v)) \<longrightarrow>
            ws \<noteq> [])"
    by (rule retry_attempts_written) (rule set_effect_body_written [OF m])
  show ?thesis
    unfolding set_effect_def retry_unfold
    using w c by (simp add: eval_nat_numeral del: retry_attempts.simps)
qed

lemma EFFECT_MAP_lookup:
  "(name, c) \<in> set EFFECT_MAP \<longleftrightarrow> map_of EFFECT_MAP name = Some c"
  using EFFECT_MAP_distinct by simp

lemma EFFECT_MAP_bij:
  "bij_betw (\<lambda>name. the (map_of EFFECT_MAP name)) (set EFFECT_LIST)
     {c. 0 \<le> c \<and> c \<le> 0x14 \<and> c \<noteq> 0x0b}"
proof -
  let ?f = "\<lambda>name. the (map_of EFFECT_MAP name)"
  have pairs: "inj_on snd (set EFFECT_MAP)"
    using EFFECT_MAP_distinct by (simp add: distinct_map)
  have inj: "inj_on ?f (set EFFECT_LIST)"
  proof (rule inj_onI)
    fix x y
    assume x: "x \<in> set EFFECT_LIST" and y: "y \<in> set EFFECT_LIST" and eq: "?f x = ?f y"
    obtain cx where cx: "map_of EFFECT_MAP x = Some cx"
      using EFFECT_LIST_entry [OF x] by blast
    obtain cy where cy: "map_of EFFECT_MAP y = Some cy"
      using EFFECT_LIST_entry [OF y] by blast
    have mem: "(x, cx) \<in> set EFFECT_MAP" "(y, cy) \<in> set EFFECT_MAP"
      using cx cy by (simp_all add: EFFECT_MAP_lookup)
    have "cx = cy"
      using eq cx cy by simp
    then have "(x, cx) = (y, cy)"
      using inj_onD [OF pairs _ mem] by simp
    then show "x = y"
      by simp
  qed
  have img: "?f ` set EFFECT_LIST = set (map snd EFFECT_MAP)"
  proof (rule set_eqI)
    fix c
    show "c \<in> ?f ` set EFFECT_LIST \<longleftrightarrow> c \<in> set (map snd EFFECT_MAP)"
    proof
      assume "c \<in> ?f ` set EFFECT_LIST"
      then obtain x where x: "x \<in> set EFFECT_LIST" and c: "c = ?f x"
        by blast
      obtain cx where cx: "map_of EFFECT_MAP x = Some cx"
        using EFFECT_LIST_entry [OF x] by blast
      then have "(x, c) \<in> set EFFECT_MAP"
        using c by (simp add: EFFECT_MAP_lookup)
      then show "c \<in> set (map snd EFFECT_MAP)"
        by force
    next
      assume "c \<in> set (map snd EFFECT_MAP)"
      then obtain x where "(x, c) \<in> set EFFECT_MAP"
        by auto
      then have m: "map_of EFFECT_MAP x = Some c"
        by (simp add: EFFECT_MAP_lookup)
      then have "x \<in> set EFFECT_LIST"
        using EFFECT_MAP_entry by blast
      then show "c \<in> ?f ` set EFFECT_LIST"
        using m by force
    qed
  qed
  show ?thesis
    unfolding bij_betw_def using inj img EFFECT_MAP_codes by auto
qed

lemma retry_written:
  assumes func: "\<And>s. \<exists>ws. written (trace (snd (func s))) = written (trace s) @ ws \<and>
                   set ws \<subseteq> A \<and> length ws \<le> 1 \<and> ((\<exists>v. fst (func s) = Inr v) \<longrightarrow> ws \<noteq> [])"
  shows "\<exists>ws. written (trace (snd (retry_bluetooth_connection_error func s))) =
              written (trace s) @ ws \<and>
           set ws \<subseteq> A \<and> length ws \<le> 3 \<and>
           ((\<exists>v. fst (retry_bluetooth_connection_error func s) = Inr (Some v)) \<longrightarrow> ws \<noteq> [])"
  unfolding retry_unfold
  using retry_attempts_written [of func A 2 "[0, 1, 2]" s, OF func]
  by (simp add: eval_nat_numeral del: retry_attempts.simps)

lemma retry_always:
  assumes func: "\<And>s. P (snd (func s))"
    and log: "\<And>l m s. P s \<Longrightarrow> P (LOGGER l m s)"
    and sleep: "\<And>t s. P s \<Longrightarrow> P (asyncio_sleep t s)"
  shows "P (snd (retry_bluetooth_connection_error func s))"
  unfolding retry_unfold
  by (rule retry_attempts_always [of P, OF func log sleep]) simp_all

lemma percent_range: "0 \<le> b \<Longrightarrow> b \<le> 255 \<Longrightarrow> 0 \<le> b * 100 div 255 \<and> b * 100 div 255 \<le> (100::int)"
  by auto

lemma spec_scaled_range:
  assumes "0 \<le> c" "c \<le> 255" "0 \<le> b" "b \<le> 255"
  shows "0 \<le> spec_scaled c b \<and> spec_scaled c b \<le> c"
proof -
  let ?p = "b * 100 div 255"
  have p: "0 \<le> ?p" "?p \<le> 100"
    using percent_range assms by simp_all
  have "c * ?p \<le> c * 100"
    using p assms by (intro mult_left_mono) simp_all
  then have "c * ?p div 100 \<le> c * 100 div 100"
    by (rule zdiv_mono1) simp
  moreover have "0 \<le> c * ?p div 100"
    using p assms by (simp add: pos_imp_zdiv_nonneg_iff)
  ultimately show ?thesis
    by (simp add: spec_scaled_def)
qed

lemma int_truediv_scaled:
  assumes "0 \<le> c" "0 \<le> b" "b \<le> 255"
  shows "int_truediv (c * int_truediv (b * 100) 255) 100 = spec_scaled c b"
proof -
  have 1: "int_truediv (b * 100) 255 = b * 100 div 255"
    using assms by (simp add: int_truediv_nonneg)
  have "0 \<le> c * (b * 100 div 255)"
    using assms percent_range by simp
  then show ?thesis
    by (simp add: 1 int_truediv_nonneg spec_scaled_def)
qed

lemma set_rgb_color_body_packet:
  assumes "0 \<le> b" "b \<le> 255" "0 \<le> r" "r \<le> 255" "0 \<le> g" "g \<le> 255" "0 \<le> bl" "bl \<le> 255"
  shows "set_rgb_color_body env (r, g, bl) (Some b) s =
           write_data env
             (Some [0x69, 0x96, 0x05, 0x02, word_of_int (spec_scaled r b),
                    word_of_int (spec_scaled g b), word_of_int (spec_scaled bl b)])
             (s\<lparr>rgb_color := Some (r, g, bl)\<rparr>)"
proof -
  have s: "int_truediv (r * int_truediv (b * 100) 255) 100 = spec_scaled r b"
    "int_truediv (g * int_truediv (b * 100) 255) 100 = spec_scaled g b"
    "int_truediv (bl * int_truediv (b * 100) 255) 100 = spec_scaled bl b"
    using assms by (simp_all add: int_truediv_scaled)
  have rr: "0 \<le> spec_scaled r b \<and> spec_scaled r b < 256"
    using spec_scaled_range [of r b] assms by simp
  have rg: "0 \<le> spec_scaled g b \<and> spec_scaled g b < 256"
    using spec_scaled_range [of g b] assms by simp
  have rb: "0 \<le> spec_scaled bl b \<and> spec_scaled bl b < 256"
    using spec_scaled_range [of bl b] assms by simp
  show ?thesis
    using rr rg rb by (simp add: set_rgb_color_body_def Let_def s bytearray_append_def)
qed

lemma set_rgb_color_body_rgb:
  "rgb_color (snd (set_rgb_color_body env rgb br s)) = Some rgb"
  by (simp add: set_rgb_color_body_def Let_def write_data_frame
        split: option.splits sum.splits)

lemma turn_on_body_raised: "turn_on_body env s = (Inl e, s') \<Longrightarrow> is_on s' = is_on s"
  using write_data_frame [of env "turn_on_cmd s" s]
  by (auto simp: turn_on_body_def split: prod.splits sum.splits)

lemma turn_on_body_returned: "turn_on_body env s = (Inr v, s') \<Longrightarrow> is_on s' = Some True"
  by (auto simp: turn_on_body_def split: prod.splits sum.splits)

lemma turn_off_body_raised: "turn_off_body env s = (Inl e, s') \<Longrightarrow> is_on s' = is_on s"
  using write_data_frame [of env "turn_off_cmd s" s]
  by (auto simp: turn_off_body_def split: prod.splits sum.splits)

lemma turn_off_body_returned: "turn_off_body env s = (Inr v, s') \<Longrightarrow> is_on s' = Some False"
  by (auto simp: turn_off_body_def split: prod.splits sum.splits)

lemma retry_outcome:
  "(\<exists>e. fst (retry_bluetooth_connection_error func s) = Inl e) \<or>
   (\<exists>v. fst (retry_bluetooth_connection_error func s) = Inr (Some v))"
  using retry_never_falls_through [of func s]
  by (cases "fst (retry_bluetooth_connection_error func s)") auto

lemma retry_raised:
  assumes func: "\<And>s e s'. func s = (Inl e, s') \<Longrightarrow> f s' = f s"
    and log: "\<And>l m s. f (LOGGER l m s) = f s"
    and sleep: "\<And>t s. f (asyncio_sleep t s) = f s"
    and raised: "fst (retry_bluetooth_connection_error func s) = Inl e"
  shows "f (snd (retry_bluetooth_connection_error func s)) = f s"
proof -
  have "retry_attempts func 2 [0, 1, 2] s = (Inl e, snd (retry_attempts func 2 [0, 1, 2] s))"
    using raised unfolding retry_unfold by (metis prod.collapse)
  moreover have "\<And>m xs s e s'. retry_attempts func m xs s = (Inl e, s') \<Longrightarrow> f s' = f s"
  proof -
    fix m xs s e s'
    assume "retry_attempts func m xs s = (Inl e, s')"
    then show "f s' = f s"
      using func log sleep by (rule retry_attempts_raised [rotated 3]) 
  qed
  ultimately have "f (snd (retry_attempts func 2 [0, 1, 2] s)) = f s"
    by blast
  then show ?thesis
    unfolding retry_unfold .
qed

lemma retry_returned:
  assumes func: "\<And>s v s'. func s = (Inr v, s') \<Longrightarrow> Q s'"
    and returned: "fst (retry_bluetooth_connection_error func s) = Inr (Some v)"
  shows "Q (snd (retry_bluetooth_connection_error func s))"
proof -
  have "retry_attempts func 2 [0, 1, 2] s = (Inr (Some v), snd (retry_attempts func 2 [0, 1, 2] s))"
    using returned unfolding retry_unfold by (metis prod.collapse)
  moreover have "\<And>m xs s v s'. retry_attempts func m xs s = (Inr (Some v), s') \<Longrightarrow> Q s'"
  proof -
    fix m xs s v s'
    assume "retry_attempts func m xs s = (Inr (Some v), s')"
    then show "Q s'"
      using func by (rule retry_attempts_returned [rotated 1])
  qed
  ultimately have "Q (snd (retry_attempts func 2 [0, 1, 2] s))"
    by blast
  then show ?thesis
    unfolding retry_unfold .
qed

lemma is_on_LOGGER: "is_on (LOGGER l m s) = is_on s"
  by (simp add: LOGGER_def)

lemma is_on_sleep: "is_on (asyncio_sleep t s) = is_on s"
  by (simp add: asyncio_sleep_def)

subsection \<open>Unfolding the model on sample data\<close>

lemmas eval_defs =
  fresh_def link_ok_def bj_client_def connected_def
  init_def detect_model_def NAME_ARRAY_def startswith_def lower_def lower_char_def LOGGER_def
  TURN_ON_CMD_def TURN_OFF_CMD_def ensure_connected_def live_def resolve_characteristics_def
  WRITE_CHARACTERISTIC_UUIDS_def get_characteristic_def reset_disconnect_timer_def
  call_later_def cancel_def write_while_connected_def write_data_def asyncio_sleep_def
  retry_bluetooth_connection_error_def DEFAULT_ATTEMPTS_def upt_3 Let_def bytearray_append_def
  int_truediv_def BLEAK_BACKOFF_TIME_def execute_disconnect_def stop_def
  execute_timed_disconnect_def disconnect_def timer_fires_def

subsection \<open>Connection, disconnection and the idle timer\<close>

lemma resolve_write_handle:
  "write_uuid (resolve_write us svcs s) \<noteq> None \<Longrightarrow>
   write_uuid s \<noteq> None \<or> (\<exists>u \<in> set us. get_characteristic svcs u \<noteq> None)"
  by (induction us) (auto split: option.splits)

lemma ensure_connected_handle:
  assumes "write_uuid s \<noteq> None \<longrightarrow> client s \<noteq> None"
  shows "write_uuid (snd (ensure_connected env s)) \<noteq> None \<longrightarrow>
         client (snd (ensure_connected env s)) \<noteq> None"
  using assms
  by (auto simp: ensure_connected_def Let_def LOGGER_def reset_disconnect_timer_frame live_def
        resolve_characteristics_frame case_prod_beta split: sum.splits if_splits)

lemma execute_disconnect_cleared:
  "client (snd (execute_disconnect env s)) = None \<and>
   write_uuid (snd (execute_disconnect env s)) = None \<and>
   expected_disconnect (snd (execute_disconnect env s))"
  by (simp add: execute_disconnect_def Let_def LOGGER_def split: option.splits)

lemma execute_disconnect_outcome:
  "fst (execute_disconnect env s) =
     (if client s \<noteq> None \<and> is_connected env (clock s)
      then (case client_disconnect env (clock s) of Some err \<Rightarrow> Inl err | None \<Rightarrow> Inr ())
      else Inr ()) \<and>
   trace (snd (execute_disconnect env s)) =
     trace s @
     (if client s \<noteq> None \<and> is_connected env (clock s)
      then ClientDisconnect (the (client s)) #
           (case client_disconnect env (clock s) of
              Some err \<Rightarrow> []
            | None \<Rightarrow> [Log DEBUG ''Disconnected''])
      else [Log DEBUG ''Disconnected''])"
  by (simp add: execute_disconnect_def Let_def LOGGER_def split: option.splits)

lemma one_timer_cancel:
  "one_timer s \<Longrightarrow> disconnect_timer s = Some h \<Longrightarrow> cancel h (timers s) = []"
  by (cases "timers s") (auto simp: one_timer_def cancel_def)

lemma one_timer_empty:
  "one_timer s \<Longrightarrow> disconnect_timer s = None \<Longrightarrow> timers s = []"
  by (cases "timers s") (auto simp: one_timer_def)

lemma reset_disconnect_timer_timers:
  assumes "one_timer s"
  shows "timers (reset_disconnect_timer s) =
           (case delay s of None \<Rightarrow> [] | Some d \<Rightarrow> if d = 0 then [] else [(next_handle s, d)]) \<and>
         one_timer (reset_disconnect_timer s)"
proof (cases "disconnect_timer s")
  case None
  then show ?thesis
    using one_timer_empty [OF assms]
    by (auto simp: reset_disconnect_timer_def call_later_def LOGGER_def Let_def one_timer_def
          split: option.splits)
next
  case (Some h)
  then show ?thesis
    using one_timer_cancel [OF assms]
    by (auto simp: reset_disconnect_timer_def call_later_def LOGGER_def Let_def one_timer_def
          split: option.splits)
qed

lemma one_timer_cong:
  "timers s' = timers s \<Longrightarrow> disconnect_timer s' = disconnect_timer s \<Longrightarrow>
   one_timer s' = one_timer s"
  by (simp add: one_timer_def)

lemma ensure_connected_one_timer:
  assumes "one_timer s"
  shows "one_timer (snd (ensure_connected env s))"
proof (cases "live env s")
  case True
  then show ?thesis
    using reset_disconnect_timer_timers [OF assms] by (simp add: ensure_connected_def)
next
  case False
  let ?s2 = "(LOGGER DEBUG ''Connecting'' s)\<lparr>clock := Suc (clock s),
               trace := trace (LOGGER DEBUG ''Connecting'' s) @ [EstablishConnection (cached_services s)]\<rparr>"
  have s2: "one_timer ?s2"
    using assms by (simp add: one_timer_def LOGGER_def)
  show ?thesis
  proof (cases "establish_connection env (clock s)")
    case (Inl err)
    then show ?thesis
      using False s2 by (simp add: ensure_connected_def Let_def LOGGER_def)
  next
    case (Inr c)
    define s7 where "s7 =
      (let s3 = LOGGER DEBUG ''Connected'' ?s2;
           r4 = resolve_characteristics (services c) s3;
           r5 = (if \<not> fst r4 then resolve_characteristics (services c) (snd r4) else r4)
       in (snd r5)\<lparr>cached_services := (if fst r5 then Some (services c) else None),
                    client := Some c\<rparr>)"
    have "timers s7 = timers s \<and> disconnect_timer s7 = disconnect_timer s"
      by (simp add: s7_def Let_def LOGGER_def resolve_characteristics_frame)
    then have "one_timer s7"
      using assms one_timer_cong by blast
    then have "one_timer (reset_disconnect_timer s7)"
      using reset_disconnect_timer_timers by blast
    moreover have "snd (ensure_connected env s) = reset_disconnect_timer s7"
      using False Inr
      by (simp add: ensure_connected_def s7_def Let_def case_prod_beta LOGGER_def)
    ultimately show ?thesis
      by simp
  qed
qed

lemma execute_disconnect_timers:
  "timers (snd (execute_disconnect env s)) = timers s \<and>
   disconnect_timer (snd (execute_disconnect env s)) = disconnect_timer s"
  by (simp add: execute_disconnect_def Let_def LOGGER_def split: option.splits)

lemma execute_disconnect_one_timer:
  "one_timer s \<Longrightarrow> one_timer (snd (execute_disconnect env s))"
  using execute_disconnect_timers [of env s] one_timer_cong by blast

lemma timer_fires_one_timer:
  assumes "one_timer s"
  shows "one_timer (snd (timer_fires env h s))"
proof (cases "h \<in> fst ` set (timers s)")
  case False
  then show ?thesis
    using assms by (simp add: timer_fires_def)
next
  case True
  let ?s1 = "LOGGER DEBUG ''Disconnecting after timeout''
               (s\<lparr>timers := cancel h (timers s), disconnect_timer := None\<rparr>)"
  have "disconnect_timer s = Some h"
    using True assms by (cases "timers s") (auto simp: one_timer_def)
  then have "cancel h (timers s) = []"
    using one_timer_cancel [OF assms] by simp
  then have "one_timer ?s1"
    by (simp add: one_timer_def LOGGER_def)
  then have "one_timer (snd (execute_disconnect env ?s1))"
    by (rule execute_disconnect_one_timer)
  then show ?thesis
    using True by (simp add: timer_fires_def disconnect_def execute_timed_disconnect_def)
qed

lemma init_one_timer: "one_timer (init name d)"
proof -
  have "timers (snd (detect_model_loop ns x s)) = timers s" for ns x s
    by (induction ns x s rule: detect_model_loop.induct) simp_all
  then show ?thesis
    by (simp add: init_def Let_def case_prod_beta detect_model_def LOGGER_def one_timer_def)
qed

subsection \<open>Counting and unrolling the attempts\<close>

lemma more_LOGGER: "BJLEDInstance.more (LOGGER l m s) = BJLEDInstance.more s"
  by (simp add: LOGGER_def)

lemma more_sleep: "BJLEDInstance.more (asyncio_sleep t s) = BJLEDInstance.more s"
  by (simp add: asyncio_sleep_def)

lemma truncate_LOGGER:
  "BJLEDInstance.truncate (LOGGER l m s) = LOGGER l m (BJLEDInstance.truncate s)"
  by (simp add: LOGGER_def BJLEDInstance.truncate_def)

lemma truncate_sleep:
  "BJLEDInstance.truncate (asyncio_sleep t s) = asyncio_sleep t (BJLEDInstance.truncate s)"
  by (simp add: asyncio_sleep_def BJLEDInstance.truncate_def)

lemma more_extend: "BJLEDInstance.more (BJLEDInstance.extend s k) = k"
  by (simp add: BJLEDInstance.extend_def)

lemma truncate_extend: "BJLEDInstance.truncate (BJLEDInstance.extend s k) = s"
  by (simp add: BJLEDInstance.extend_def BJLEDInstance.truncate_def)

lemma counted_more: "BJLEDInstance.more (snd (counted func s)) = Suc (BJLEDInstance.more s)"
  by (simp add: counted_def BJLEDInstance.extend_def split: prod.splits)

lemma counted_result:
  "fst (counted func s) = fst (func (BJLEDInstance.truncate s)) \<and>
   BJLEDInstance.truncate (snd (counted func s)) = snd (func (BJLEDInstance.truncate s))"
  by (simp add: counted_def BJLEDInstance.extend_def BJLEDInstance.truncate_def split: prod.splits)

lemma retry_attempts_counted_bounds:
  "BJLEDInstance.more s \<le> BJLEDInstance.more (snd (retry_attempts (counted func) m xs s)) \<and>
   BJLEDInstance.more (snd (retry_attempts (counted func) m xs s)) \<le> BJLEDInstance.more s + length xs"
proof (induction xs arbitrary: s)
  case Nil
  then show ?case by simp
next
  case (Cons a xs)
  obtain r s1 where f: "counted func s = (r, s1)" by (cases "counted func s")
  have m1: "BJLEDInstance.more s1 = Suc (BJLEDInstance.more s)"
    using counted_more [of func s] f by simp
  show ?case
  proof (cases r)
    case (Inr v)
    then show ?thesis using f m1 by simp
  next
    case (Inl err)
    show ?thesis
      using f Inl m1
        Cons.IH [of "asyncio_sleep BLEAK_BACKOFF_TIME (LOGGER DEBUG ''error calling, backing off, retrying'' s1)"]
        Cons.IH [of "LOGGER DEBUG ''error calling, retrying'' s1"]
      by (auto simp: more_LOGGER more_sleep)
  qed
qed

lemma retry_attempts_counted_first:
  "BJLEDInstance.more s < BJLEDInstance.more (snd (retry_attempts (counted func) m (a # xs) s))"
proof -
  obtain r s1 where f: "counted func s = (r, s1)" by (cases "counted func s")
  have m1: "BJLEDInstance.more s1 = Suc (BJLEDInstance.more s)"
    using counted_more [of func s] f by simp
  show ?thesis
  proof (cases r)
    case (Inr v)
    then show ?thesis using f m1 by simp
  next
    case (Inl err)
    show ?thesis
      using f Inl m1
        retry_attempts_counted_bounds [of "asyncio_sleep BLEAK_BACKOFF_TIME (LOGGER DEBUG ''error calling, backing off, retrying'' s1)" func m xs]
        retry_attempts_counted_bounds [of "LOGGER DEBUG ''error calling, retrying'' s1" func m xs]
      by (auto simp: more_LOGGER more_sleep)
  qed
qed

lemma retry_attempts_counted_transparent:
  "fst (retry_attempts (counted func) m xs s) =
     fst (retry_attempts func m xs (BJLEDInstance.truncate s)) \<and>
   BJLEDInstance.truncate (snd (retry_attempts (counted func) m xs s)) =
     snd (retry_attempts func m xs (BJLEDInstance.truncate s))"
proof (induction xs arbitrary: s)
  case Nil
  then show ?case by simp
next
  case (Cons a xs)
  obtain r s1 where f: "counted func s = (r, s1)" by (cases "counted func s")
  obtain s1' where g: "func (BJLEDInstance.truncate s) = (r, s1')"
    and t: "BJLEDInstance.truncate s1 = s1'"
    using f counted_result [of func s] by (cases "func (BJLEDInstance.truncate s)") auto
  show ?case
  proof (cases r)
    case (Inr v)
    then show ?thesis using f g t by simp
  next
    case (Inl err)
    show ?thesis
      using f g t Inl
        Cons.IH [of "asyncio_sleep BLEAK_BACKOFF_TIME (LOGGER DEBUG ''error calling, backing off, retrying'' s1)"]
        Cons.IH [of "LOGGER DEBUG ''error calling, retrying'' s1"]
      by (simp add: truncate_LOGGER truncate_sleep)
  qed
qed

lemma retry_counted:
  "BJLEDInstance.more c < BJLEDInstance.more (snd (retry_bluetooth_connection_error (counted func) c)) \<and>
   BJLEDInstance.more (snd (retry_bluetooth_connection_error (counted func) c)) \<le> BJLEDInstance.more c + 3 \<and>
   fst (retry_bluetooth_connection_error (counted func) c) =
     fst (retry_bluetooth_connection_error func (BJLEDInstance.truncate c)) \<and>
   BJLEDInstance.truncate (snd (retry_bluetooth_connection_error (counted func) c)) =
     snd (retry_bluetooth_connection_error func (BJLEDInstance.truncate c))"
  unfolding retry_unfold
  using retry_attempts_counted_first [of c func 2 0 "[1, 2]"]
    retry_attempts_counted_bounds [of c func 2 "[0, 1, 2]"]
    retry_attempts_counted_transparent [of func 2 "[0, 1, 2]" c]
  by (simp del: retry_attempts.simps)

lemma retry_counted_not_found:
  assumes "fst (func (BJLEDInstance.truncate c)) = Inl (BleakNotFoundError m)"
  shows "BJLEDInstance.more (snd (retry_bluetooth_connection_error (counted func) c)) =
         BJLEDInstance.more c + 1"
proof -
  obtain r s1 where f: "counted func c = (r, s1)" by (cases "counted func c")
  have "r = Inl (BleakNotFoundError m)"
    using f assms counted_result [of func c] by simp
  moreover have "BJLEDInstance.more s1 = Suc (BJLEDInstance.more c)"
    using counted_more [of func c] f by simp
  ultimately show ?thesis
    using f by (simp add: retry_unfold)
qed

lemma retry_first_returns:
  "func s = (Inr v, s1) \<Longrightarrow> retry_bluetooth_connection_error func s = (Inr (Some v), s1)"
  by (simp add: retry_unfold)

lemma retry_not_found:
  "func s = (Inl (BleakNotFoundError m), s1) \<Longrightarrow>
   retry_bluetooth_connection_error func s = (Inl (BleakNotFoundError m), s1)"
  by (simp add: retry_unfold)

lemma retry_attempts_retryable:
  "func s = (Inl e, s1) \<Longrightarrow> retryable e \<Longrightarrow> a < m \<Longrightarrow>
   retry_attempts func m (a # xs) s = retry_attempts func m xs (before_next_attempt e s1)"
  by (auto simp: retryable_def before_next_attempt_def)

lemma retry_attempts_final:
  "func s = (Inl e, s1) \<Longrightarrow> BLEAK_EXCEPTIONS e \<or> RETRY_BACKOFF_EXCEPTIONS e \<Longrightarrow> m \<le> a \<Longrightarrow>
   retry_attempts func m (a # xs) s =
     (Inl e, if is_BleakNotFoundError e then s1
             else LOGGER DEBUG ''error calling, reach max attempts'' s1)"
  by auto

lemma retry_three_failures:
  assumes "func s = (Inl e1, s1)" "retryable e1"
    and "func (before_next_attempt e1 s1) = (Inl e2, s2)" "retryable e2"
    and "func (before_next_attempt e2 s2) = (Inl e3, s3)"
    and "RETRY_BACKOFF_EXCEPTIONS e3 \<or> BLEAK_EXCEPTIONS e3"
  shows "retry_bluetooth_connection_error func s =
           (Inl e3, if is_BleakNotFoundError e3 then s3
                    else LOGGER DEBUG ''error calling, reach max attempts'' s3)"
proof -
  have "retry_attempts func 2 [0, 1, 2] s = retry_attempts func 2 [1, 2] (before_next_attempt e1 s1)"
    using assms(1,2) by (rule retry_attempts_retryable) simp
  also have "\<dots> = retry_attempts func 2 [2] (before_next_attempt e2 s2)"
    using assms(3,4) by (rule retry_attempts_retryable) simp
  also have "\<dots> = (Inl e3, if is_BleakNotFoundError e3 then s3
                    else LOGGER DEBUG ''error calling, reach max attempts'' s3)"
    using assms(5) by (rule retry_attempts_final) (use assms(6) in auto)
  finally show ?thesis
    unfolding retry_unfold .
qed

lemma before_next_attempt_trace:
  "trace (before_next_attempt e s) =
     trace s @
     (if RETRY_BACKOFF_EXCEPTIONS e
      then [Log DEBUG ''error calling, backing off, retrying'', Sleep (1 / 4)]
      else [Log DEBUG ''error calling, retrying''])"
  by (simp add: before_next_attempt_def asyncio_sleep_def LOGGER_def BLEAK_BACKOFF_TIME_def)

lemma retry_second_returns:
  assumes "func s = (Inl e1, s1)" "retryable e1"
    and "func (before_next_attempt e1 s1) = (Inr v, s2)"
  shows "retry_bluetooth_connection_error func s = (Inr (Some v), s2)"
proof -
  have "retry_attempts func 2 [0, 1, 2] s = retry_attempts func 2 [1, 2] (before_next_attempt e1 s1)"
    using assms(1,2) by (rule retry_attempts_retryable) simp
  also have "\<dots> = (Inr (Some v), s2)"
    using assms(3) by simp
  finally show ?thesis
    unfolding retry_unfold .
qed

lemma retry_third_returns:
  assumes "func s = (Inl e1, s1)" "retryable e1"
    and "func (before_next_attempt e1 s1) = (Inl e2, s2)" "retryable e2"
    and "func (before_next_attempt e2 s2) = (Inr v, s3)"
  shows "retry_bluetooth_connection_error func s = (Inr (Some v), s3)"
proof -
  have "retry_attempts func 2 [0, 1, 2] s = retry_attempts func 2 [1, 2] (before_next_attempt e1 s1)"
    using assms(1,2) by (rule retry_attempts_retryable) simp
  also have "\<dots> = retry_attempts func 2 [2] (before_next_attempt e2 s2)"
    using assms(3,4) by (rule retry_attempts_retryable) simp
  also have "\<dots> = (Inr (Some v), s3)"
    using assms(5) by simp
  finally show ?thesis
    unfolding retry_unfold .
qed

lemma retry_second_not_found:
  assumes "func s = (Inl e1, s1)" "retryable e1"
    and "func (before_next_attempt e1 s1) = (Inl (BleakNotFoundError m), s2)"
  shows "retry_bluetooth_connection_error func s = (Inl (BleakNotFoundError m), s2)"
proof -
  have "retry_attempts func 2 [0, 1, 2] s = retry_attempts func 2 [1, 2] (before_next_attempt e1 s1)"
    using assms(1,2) by (rule retry_attempts_retryable) simp
  also have "\<dots> = (Inl (BleakNotFoundError m), s2)"
    using assms(3) by simp
  finally show ?thesis
    unfolding retry_unfold .
qed

subsection \<open>What a command writes\<close>

lemma ensure_connected_outcome:
  "fst (ensure_connected env s) =
     (if live env s then Inr ()
      else (case establish_connection env (clock s) of Inl e \<Rightarrow> Inl e | Inr c \<Rightarrow> Inr ())) \<and>
   clock (snd (ensure_connected env s)) = (if live env s then clock s else Suc (clock s))"
  by (simp add: ensure_connected_def Let_def LOGGER_def reset_disconnect_timer_frame
        resolve_characteristics_frame case_prod_beta split: sum.splits)

lemma ensure_connected_cong:
  assumes "client s' = client s" "clock s' = clock s"
  shows "fst (ensure_connected env s') = fst (ensure_connected env s) \<and>
         clock (snd (ensure_connected env s')) = clock (snd (ensure_connected env s))"
  using assms by (simp add: ensure_connected_outcome live_def)

lemma write_data_exact:
  "written (trace (snd (write_data env d s))) =
     written (trace s) @ (if fst (ensure_connected env s) = Inr () then [d] else []) \<and>
   fst (write_data env d s) =
     (case fst (ensure_connected env s) of
        Inl e \<Rightarrow> Inl e
      | Inr u \<Rightarrow>
          (case write_gatt_char env (clock (snd (ensure_connected env s))) of
             Some e \<Rightarrow> Inl e
           | None \<Rightarrow> Inr ()))"
proof (cases "ensure_connected env s")
  case (Pair r s1)
  show ?thesis
  proof (cases r)
    case (Inl err)
    then show ?thesis
      using Pair ensure_connected_frame [of env s] by (simp add: write_data_def)
  next
    case (Inr u)
    have c: "client s1 \<noteq> None"
      using ensure_connected_client [of env s u] Pair Inr by simp
    have w: "written (trace s1) = written (trace s)"
      using ensure_connected_frame [of env s] Pair by simp
    show ?thesis
      using Pair Inr c w
      by (auto simp: write_data_def write_while_connected_def Let_def LOGGER_def
            split: option.splits)
  qed
qed

lemma retry_attempts_first_written:
  assumes func: "\<And>s. \<exists>ws. written (trace (snd (func s))) = written (trace s) @ ws \<and>
                   set ws \<subseteq> A \<and> length ws \<le> 1 \<and> ((\<exists>v. fst (func s) = Inr v) \<longrightarrow> ws \<noteq> [])"
  shows "\<exists>ws. written (trace (snd (retry_attempts func m (a # xs) s))) =
              written (trace (snd (func s))) @ ws \<and>
           set ws \<subseteq> A \<and> length ws \<le> length xs"
proof -
  obtain r s1 where f: "func s = (r, s1)" by (cases "func s")
  have rest: "\<exists>ws. written (trace (snd (retry_attempts func m xs s2))) = written (trace s1) @ ws \<and>
           set ws \<subseteq> A \<and> length ws \<le> length xs"
    if "written (trace s2) = written (trace s1)" for s2
    using retry_attempts_written [of func A m xs s2, OF func] that by auto
  show ?thesis
  proof (cases r)
    case (Inr v)
    then show ?thesis using f by simp
  next
    case (Inl err)
    show ?thesis
      using f Inl
        rest [of "asyncio_sleep BLEAK_BACKOFF_TIME (LOGGER DEBUG ''error calling, backing off, retrying'' s1)"]
        rest [of "LOGGER DEBUG ''error calling, retrying'' s1"]
      by simp
  qed
qed

lemma retry_write_command:
  assumes body: "\<And>s. func s = write_data env d (prep s)"
    and prep: "\<And>s. client (prep s) = client s \<and> clock (prep s) = clock s \<and>
                 written (trace (prep s)) = written (trace s)"
  shows "(fst (ensure_connected env s) = Inr () \<longrightarrow>
            (\<exists>ws. written (trace (snd (retry_bluetooth_connection_error func s))) =
                     written (trace s) @ d # ws \<and>
               set ws \<subseteq> {d} \<and> length ws \<le> 2)) \<and>
         (fst (ensure_connected env s) = Inr () \<and>
          write_gatt_char env (clock (snd (ensure_connected env s))) = None \<longrightarrow>
            fst (retry_bluetooth_connection_error func s) = Inr (Some ()) \<and>
            written (trace (snd (retry_bluetooth_connection_error func s))) =
              written (trace s) @ [d]) \<and>
         (\<exists>ws. written (trace (snd (retry_bluetooth_connection_error func s))) =
                  written (trace s) @ ws \<and>
            set ws \<subseteq> {d} \<and> length ws \<le> 3 \<and>
            (fst (retry_bluetooth_connection_error func s) = Inr (Some ()) \<longrightarrow> ws \<noteq> []))"
proof -
  have cong: "fst (ensure_connected env (prep s')) = fst (ensure_connected env s') \<and>
      clock (snd (ensure_connected env (prep s'))) = clock (snd (ensure_connected env s'))" for s'
    using prep [of s'] by (intro ensure_connected_cong) simp_all
  have step: "\<exists>ws. written (trace (snd (func s'))) = written (trace s') @ ws \<and>
      set ws \<subseteq> {d} \<and> length ws \<le> 1 \<and> ((\<exists>v. fst (func s') = Inr v) \<longrightarrow> ws \<noteq> [])" for s'
    using write_data_written [of env d "prep s'"] prep [of s'] by (simp add: body)
  have first: "written (trace (snd (func s))) =
      written (trace s) @ (if fst (ensure_connected env s) = Inr () then [d] else [])"
    using write_data_exact [of env d "prep s"] prep [of s] cong [of s] by (simp add: body)
  have res: "fst (func s) =
     (case fst (ensure_connected env s) of
        Inl e \<Rightarrow> Inl e
      | Inr u \<Rightarrow>
          (case write_gatt_char env (clock (snd (ensure_connected env s))) of
             Some e \<Rightarrow> Inl e
           | None \<Rightarrow> Inr ()))"
    using write_data_exact [of env d "prep s"] cong [of s]
    by (simp add: body split: sum.splits)
  have 1: "\<exists>ws. written (trace (snd (retry_bluetooth_connection_error func s))) =
                     written (trace s) @ d # ws \<and> set ws \<subseteq> {d} \<and> length ws \<le> 2"
    if "fst (ensure_connected env s) = Inr ()"
    using retry_attempts_first_written [of func "{d}" 2 0 "[1, 2]" s, OF step] first that
    unfolding retry_unfold by (simp add: eval_nat_numeral del: retry_attempts.simps)
  have 2: "fst (retry_bluetooth_connection_error func s) = Inr (Some ()) \<and>
            written (trace (snd (retry_bluetooth_connection_error func s))) = written (trace s) @ [d]"
    if "fst (ensure_connected env s) = Inr ()"
      and "write_gatt_char env (clock (snd (ensure_connected env s))) = None"
  proof -
    have "fst (func s) = Inr ()"
      using res that by simp
    then have "func s = (Inr (), snd (func s))"
      by (metis prod.collapse)
    then have "retry_bluetooth_connection_error func s = (Inr (Some ()), snd (func s))"
      by (rule retry_first_returns)
    then show ?thesis
      using first that by simp
  qed
  have 3: "\<exists>ws. written (trace (snd (retry_bluetooth_connection_error func s))) =
                  written (trace s) @ ws \<and>
            set ws \<subseteq> {d} \<and> length ws \<le> 3 \<and>
            (fst (retry_bluetooth_connection_error func s) = Inr (Some ()) \<longrightarrow> ws \<noteq> [])"
    using retry_written [of func "{d}" s, OF step] by simp
  show ?thesis
    using 1 2 3 by blast
qed

lemma write_command_attempt:
  assumes body: "\<And>s. func s = write_data env d (prep s)"
    and prep: "\<And>s. client (prep s) = client s \<and> clock (prep s) = clock s \<and>
                 written (trace (prep s)) = written (trace s)"
  shows "written (trace (snd (func s))) =
           written (trace s) @ (if fst (ensure_connected env s) = Inr () then [d] else []) \<and>
         fst (func s) =
           (case fst (ensure_connected env s) of
              Inl e \<Rightarrow> Inl e
            | Inr u \<Rightarrow>
                (case write_gatt_char env (clock (snd (ensure_connected env s))) of
                   Some e \<Rightarrow> Inl e
                 | None \<Rightarrow> Inr ()))"
proof -
  have cong: "fst (ensure_connected env (prep s)) = fst (ensure_connected env s) \<and>
      clock (snd (ensure_connected env (prep s))) = clock (snd (ensure_connected env s))"
    using prep [of s] by (intro ensure_connected_cong) simp_all
  show ?thesis
    using write_data_exact [of env d "prep s"] prep [of s] cong
    by (simp add: body split: sum.splits)
qed

lemma set_effect_body_packet:
  assumes "map_of EFFECT_MAP eff = Some code"
  shows "set_effect_body env eff s =
           write_data env (Some [0x69, 0x96, 0x03, 0x03, word_of_int code, 0x01])
             (LOGGER DEBUG ''Effect name'' (LOGGER DEBUG ''Effect ID'' (s\<lparr>effect := Some eff\<rparr>)))"
proof -
  have e: "eff \<in> set EFFECT_LIST" "0 \<le> code" "code < 256"
    using EFFECT_MAP_entry [OF assms] by simp_all
  show ?thesis
    using e assms by (simp add: set_effect_body_def Let_def bytearray_append_def)
qed

lemma set_effect_writes:
  assumes m: "map_of EFFECT_MAP eff = Some code"
  shows "(fst (ensure_connected env s) = Inr () \<longrightarrow>
            (\<exists>ws. written (trace (snd (set_effect env eff s))) =
                     written (trace s) @ Some [0x69, 0x96, 0x03, 0x03, word_of_int code, 0x01] # ws \<and>
               set ws \<subseteq> {Some [0x69, 0x96, 0x03, 0x03, word_of_int code, 0x01]} \<and>
               length ws \<le> 2)) \<and>
         (fst (ensure_connected env s) = Inr () \<and>
          write_gatt_char env (clock (snd (ensure_connected env s))) = None \<longrightarrow>
            fst (set_effect env eff s) = Inr (Some ()) \<and>
            written (trace (snd (set_effect env eff s))) =
              written (trace s) @ [Some [0x69, 0x96, 0x03, 0x03, word_of_int code, 0x01]]) \<and>
         (\<exists>ws. written (trace (snd (set_effect env eff s))) = written (trace s) @ ws \<and>
            set ws \<subseteq> {Some [0x69, 0x96, 0x03, 0x03, word_of_int code, 0x01]} \<and>
            length ws \<le> 3 \<and>
            (fst (set_effect env eff s) = Inr (Some ()) \<longrightarrow> ws \<noteq> []))"
  unfolding set_effect_def
  by (rule retry_write_command
        [where prep = "\<lambda>s. LOGGER DEBUG ''Effect name''
                              (LOGGER DEBUG ''Effect ID'' (s\<lparr>effect := Some eff\<rparr>))"])
     (simp_all add: set_effect_body_packet [OF m] LOGGER_def)

lemma set_rgb_color_writes:
  assumes "0 \<le> b" "b \<le> 255" "0 \<le> r" "r \<le> 255" "0 \<le> g" "g \<le> 255" "0 \<le> bl" "bl \<le> 255"
  shows "(fst (ensure_connected env s) = Inr () \<longrightarrow>
            (\<exists>ws. written (trace (snd (set_rgb_color env (r, g, bl) (Some b) s))) =
                     written (trace s) @
                     Some [0x69, 0x96, 0x05, 0x02, word_of_int (spec_scaled r b),
                           word_of_int (spec_scaled g b), word_of_int (spec_scaled bl b)] # ws \<and>
               set ws \<subseteq> {Some [0x69, 0x96, 0x05, 0x02, word_of_int (spec_scaled r b),
                                 word_of_int (spec_scaled g b), word_of_int (spec_scaled bl b)]} \<and>
               length ws \<le> 2)) \<and>
         (fst (ensure_connected env s) = Inr () \<and>
          write_gatt_char env (clock (snd (ensure_connected env s))) = None \<longrightarrow>
            fst (set_rgb_color env (r, g, bl) (Some b) s) = Inr (Some ()) \<and>
            written (trace (snd (set_rgb_color env (r, g, bl) (Some b) s))) =
              written (trace s) @
              [Some [0x69, 0x96, 0x05, 0x02, word_of_int (spec_scaled r b),
                     word_of_int (spec_scaled g b), word_of_int (spec_scaled bl b)]]) \<and>
         (\<exists>ws. written (trace (snd (set_rgb_color env (r, g, bl) (Some b) s))) =
                  written (trace s) @ ws \<and>
            set ws \<subseteq> {Some [0x69, 0x96, 0x05, 0x02, word_of_int (spec_scaled r b),
                              word_of_int (spec_scaled g b), word_of_int (spec_scaled bl b)]} \<and>
            length ws \<le> 3 \<and>
            (fst (set_rgb_color env (r, g, bl) (Some b) s) = Inr (Some ()) \<longrightarrow> ws \<noteq> []))"
  unfolding set_rgb_color_def
  by (rule retry_write_command [where prep = "\<lambda>s. s\<lparr>rgb_color := Some (r, g, bl)\<rparr>"])
     (simp_all add: set_rgb_color_body_packet [OF assms])

section \<open>The claims\<close>

subsection \<open>Brightness\<close>

text \<open>
  C10. \<open>set_rgb_color\<close> called without a brightness while none is stored: the code
  stores 255 but leaves its local \<open>brightness\<close> at \<open>None\<close>, so \<open>brightness * 100\<close>
  raises \<open>TypeError\<close>. The decorator does not catch it: the call fails at its first
  attempt, the colour and the brightness 255 are stored, and nothing else has changed
  (no packet, no connection, no write, no delay).
\<close>

theorem set_rgb_color_without_brightness:
  "brightness s = None \<Longrightarrow>
   set_rgb_color env rgb None s =
     (Inl (TypeError ''unsupported operand type(s) for *: NoneType and int''),
      s\<lparr>rgb_color := Some rgb, brightness := Some 255\<rparr>)"
  by (simp add: set_rgb_color_def set_rgb_color_body_def retry_bluetooth_connection_error_def
        DEFAULT_ATTEMPTS_def upt_3)

theorem set_rgb_color_without_brightness_witness:
  "brightness (fresh\<lparr>brightness := None\<rparr>) = None \<and>
   fst (set_rgb_color link_ok (255, 0, 0) None (fresh\<lparr>brightness := None\<rparr>)) =
     Inl (TypeError ''unsupported operand type(s) for *: NoneType and int'') \<and>
   brightness (snd (set_rgb_color link_ok (255, 0, 0) None (fresh\<lparr>brightness := None\<rparr>))) =
     Some 255 \<and>
   trace (snd (set_rgb_color link_ok (255, 0, 0) None (fresh\<lparr>brightness := None\<rparr>))) =
     trace fresh"
  using set_rgb_color_without_brightness [of "fresh\<lparr>brightness := None\<rparr>" link_ok "(255, 0, 0)"]
  by simp

text \<open>
  C4, as amended. \<open>normalize_brightness\<close> stores the normalised brightness in the
  session and returns it as a percentage: 255 is stored (and 100 returned) for \<open>None\<close>
  with no brightness stored, 2 (and 0) for an integer below 2, 255 (and 100) for one above
  255, and any other integer \<open>b\<close> is stored as it is (and \<open>b * 100 div 255\<close> returned).
\<close>

theorem normalize_brightness_stores_clamped:
  "(brightness s = None \<longrightarrow>
      brightness (snd (normalize_brightness None s)) = Some 255 \<and>
      fst (normalize_brightness None s) = Inr 100) \<and>
   (b < 2 \<longrightarrow>
      brightness (snd (normalize_brightness (Some b) s)) = Some 2 \<and>
      fst (normalize_brightness (Some b) s) = Inr 0) \<and>
   (255 < b \<longrightarrow>
      brightness (snd (normalize_brightness (Some b) s)) = Some 255 \<and>
      fst (normalize_brightness (Some b) s) = Inr 100) \<and>
   (2 \<le> b \<and> b \<le> 255 \<longrightarrow>
      brightness (snd (normalize_brightness (Some b) s)) = Some b \<and>
      fst (normalize_brightness (Some b) s) = Inr (b * 100 div 255))"
  by (simp add: normalize_brightness_def LOGGER_def Let_def int_truediv_nonneg)

theorem normalize_brightness_stores_clamped_witness:
  "brightness (fresh\<lparr>brightness := None\<rparr>) = None \<and>
   brightness (snd (normalize_brightness None (fresh\<lparr>brightness := None\<rparr>))) = Some 255 \<and>
   (1::int) < 2 \<and> brightness (snd (normalize_brightness (Some 1) fresh)) = Some 2 \<and>
   (255::int) < 300 \<and> brightness (snd (normalize_brightness (Some 300) fresh)) = Some 255 \<and>
   (2::int) \<le> 128 \<and> (128::int) \<le> 255 \<and>
   brightness (snd (normalize_brightness (Some 128) fresh)) = Some 128 \<and>
   fst (normalize_brightness (Some 128) fresh) = Inr 50"
  using normalize_brightness_stores_clamped [of "fresh\<lparr>brightness := None\<rparr>" 1]
    normalize_brightness_stores_clamped [of fresh 1]
    normalize_brightness_stores_clamped [of fresh 300]
    normalize_brightness_stores_clamped [of fresh 128]
  by simp

text \<open>
  What the function yields is the percentage, not the brightness: 100 where the claim
  says 255, 0 where it says 2, and 50 for the input 128.
\<close>

theorem normalize_brightness_returns_percent:
  "fst (normalize_brightness None (fresh\<lparr>brightness := None\<rparr>)) = Inr 100 \<and>
   fst (normalize_brightness (Some 1) fresh) = Inr 0 \<and>
   fst (normalize_brightness (Some 128) fresh) = Inr 50"
  by (simp add: normalize_brightness_def LOGGER_def Let_def int_truediv_def)

subsection \<open>Packets\<close>

text \<open>
  C5. For an effect name of the table, \<open>code\<close> being the table's code of the name, each
  attempt of \<open>set_effect\<close> writes the six bytes \<open>69 96 03 03 code 01\<close> once if the
  connection can be ensured and nothing otherwise, and it returns or raises as the
  connection and the write do. So the command writes the packet first whenever the
  connection is there, writes it exactly once and returns when the write succeeds as
  well, and never writes anything else (at most three writes). The table maps the twenty
  names to the codes \<open>0x00\<close> to \<open>0x14\<close> without \<open>0x0b\<close>, as the specification lists
  them, and is a bijection between the names and these codes.
\<close>

theorem set_effect_packet:
  "(map_of EFFECT_MAP eff = Some code \<longrightarrow>
      set_effect env eff s = retry_bluetooth_connection_error (set_effect_body env eff) s \<and>
      written (trace (snd (set_effect_body env eff s))) =
        written (trace s) @
        (if fst (ensure_connected env s) = Inr ()
         then [Some [0x69, 0x96, 0x03, 0x03, word_of_int code, 0x01]] else []) \<and>
      fst (set_effect_body env eff s) =
        (case fst (ensure_connected env s) of
           Inl e \<Rightarrow> Inl e
         | Inr u \<Rightarrow>
             (case write_gatt_char env (clock (snd (ensure_connected env s))) of
                Some e \<Rightarrow> Inl e
              | None \<Rightarrow> Inr ())) \<and>
      (fst (ensure_connected env s) = Inr () \<longrightarrow>
         (\<exists>ws. written (trace (snd (set_effect env eff s))) =
                  written (trace s) @ Some [0x69, 0x96, 0x03, 0x03, word_of_int code, 0x01] # ws \<and>
            set ws \<subseteq> {Some [0x69, 0x96, 0x03, 0x03, word_of_int code, 0x01]} \<and>
            length ws \<le> 2)) \<and>
      (fst (ensure_connected env s) = Inr () \<and>
       write_gatt_char env (clock (snd (ensure_connected env s))) = None \<longrightarrow>
         fst (set_effect env eff s) = Inr (Some ()) \<and>
         written (trace (snd (set_effect env eff s))) =
           written (trace s) @ [Some [0x69, 0x96, 0x03, 0x03, word_of_int code, 0x01]]) \<and>
      (\<exists>ws. written (trace (snd (set_effect env eff s))) = written (trace s) @ ws \<and>
         set ws \<subseteq> {Some [0x69, 0x96, 0x03, 0x03, word_of_int code, 0x01]} \<and>
         length ws \<le> 3 \<and>
         (fst (set_effect env eff s) = Inr (Some ()) \<longrightarrow> ws \<noteq> [])) \<and>
      0 \<le> code \<and> code \<le> 0x14 \<and> code \<noteq> 0x0b) \<and>
   map (map_of EFFECT_MAP)
     [''colorloop'', ''red_fade'', ''green_fade'', ''blue_fade'', ''yellow_fade'',
      ''cyan_fade'', ''purple_fade'', ''white_fade'', ''rg_cross_fade'', ''rb_cross_fade'',
      ''gb_cross_fade'', ''colorstrobe'', ''red_strobe'', ''green_strobe'', ''blue_strobe'',
      ''yellow_strobe'', ''cyan_strobe'', ''purple_strobe'', ''white_strobe'', ''colorjump''] =
     map Some [0x00, 0x01, 0x02, 0x03, 0x04, 0x05, 0x06, 0x07, 0x08, 0x09, 0x0a, 0x0c, 0x0d,
               0x0e, 0x0f, 0x10, 0x11, 0x12, 0x13, 0x14] \<and>
   bij_betw (\<lambda>name. the (map_of EFFECT_MAP name)) (set EFFECT_LIST)
     {c. 0 \<le> c \<and> c \<le> 0x14 \<and> c \<noteq> 0x0b}"
proof -
  have table: "map (map_of EFFECT_MAP)
     [''colorloop'', ''red_fade'', ''green_fade'', ''blue_fade'', ''yellow_fade'',
      ''cyan_fade'', ''purple_fade'', ''white_fade'', ''rg_cross_fade'', ''rb_cross_fade'',
      ''gb_cross_fade'', ''colorstrobe'', ''red_strobe'', ''green_strobe'', ''blue_strobe'',
      ''yellow_strobe'', ''cyan_strobe'', ''purple_strobe'', ''white_strobe'', ''colorjump''] =
     map Some [0x00, 0x01, 0x02, 0x03, 0x04, 0x05, 0x06, 0x07, 0x08, 0x09, 0x0a, 0x0c, 0x0d,
               0x0e, 0x0f, 0x10, 0x11, 0x12, 0x13, 0x14]"
    by (simp add: EFFECT_MAP_def)
  have codes: "0 \<le> code \<and> code \<le> 0x14 \<and> code \<noteq> 0x0b" if "map_of EFFECT_MAP eff = Some code"
    using set_effect_written [OF that] by simp
  have attempt: "written (trace (snd (set_effect_body env eff s))) =
        written (trace s) @
        (if fst (ensure_connected env s) = Inr ()
         then [Some [0x69, 0x96, 0x03, 0x03, word_of_int code, 0x01]] else []) \<and>
      fst (set_effect_body env eff s) =
        (case fst (ensure_connected env s) of
           Inl e \<Rightarrow> Inl e
         | Inr u \<Rightarrow>
             (case write_gatt_char env (clock (snd (ensure_connected env s))) of
                Some e \<Rightarrow> Inl e
              | None \<Rightarrow> Inr ()))"
    if m: "map_of EFFECT_MAP eff = Some code"
    by (rule write_command_attempt
          [where prep = "\<lambda>s. LOGGER DEBUG ''Effect name''
                                (LOGGER DEBUG ''Effect ID'' (s\<lparr>effect := Some eff\<rparr>))"])
       (simp_all add: set_effect_body_packet [OF m] LOGGER_def)
  have deco: "set_effect env eff s = retry_bluetooth_connection_error (set_effect_body env eff) s"
    by (simp add: set_effect_def)
  show ?thesis
    using set_effect_writes [of eff code env s] attempt deco codes table EFFECT_MAP_bij by blast
qed

theorem set_effect_packet_witness:
  "map_of EFFECT_MAP ''red_fade'' = Some 0x01 \<and>
   fst (ensure_connected link_ok fresh) = Inr () \<and>
   write_gatt_char link_ok (clock (snd (ensure_connected link_ok fresh))) = None \<and>
   fst (set_effect link_ok ''red_fade'' fresh) = Inr (Some ()) \<and>
   written (trace (snd (set_effect link_ok ''red_fade'' fresh))) =
     written (trace fresh) @ [Some [0x69, 0x96, 0x03, 0x03, 0x01, 0x01]] \<and>
   fst (ensure_connected link_write_fails fresh) = Inr () \<and>
   (\<exists>ws. written (trace (snd (set_effect link_write_fails ''red_fade'' fresh))) =
            written (trace fresh) @ Some [0x69, 0x96, 0x03, 0x03, 0x01, 0x01] # ws \<and>
      set ws \<subseteq> {Some [0x69, 0x96, 0x03, 0x03, 0x01, 0x01]} \<and> length ws \<le> 2)"
proof -
  have h: "map_of EFFECT_MAP ''red_fade'' = Some 1"
    by (simp add: EFFECT_MAP_def)
  have c: "fst (ensure_connected link_ok fresh) = Inr ()"
    "write_gatt_char link_ok (clock (snd (ensure_connected link_ok fresh))) = None"
    "fst (ensure_connected link_write_fails fresh) = Inr ()"
    by (simp_all add: eval_defs link_write_fails_def)
  have ok: "fst (set_effect link_ok ''red_fade'' fresh) = Inr (Some ()) \<and>
      written (trace (snd (set_effect link_ok ''red_fade'' fresh))) =
        written (trace fresh) @ [Some [0x69, 0x96, 0x03, 0x03, word_of_int 1, 0x01]]"
    using set_effect_packet [of "''red_fade''" 1 link_ok fresh] h c by blast
  have bad: "\<exists>ws. written (trace (snd (set_effect link_write_fails ''red_fade'' fresh))) =
            written (trace fresh) @ Some [0x69, 0x96, 0x03, 0x03, word_of_int 1, 0x01] # ws \<and>
      set ws \<subseteq> {Some [0x69, 0x96, 0x03, 0x03, word_of_int 1, 0x01]} \<and> length ws \<le> 2"
    using set_effect_packet [of "''red_fade''" 1 link_write_fails fresh] h c by blast
  show ?thesis
    using h c ok bad by simp
qed

text \<open>
  C6. For a brightness \<open>b\<close> in \<open>0..255\<close> and an RGB triple, whose channels are in
  \<open>0..255\<close>, each attempt of \<open>set_rgb_color\<close> writes \<open>69 96 05 02\<close> and the three
  channels scaled to \<open>floor(channel * floor(b * 100 / 255) / 100)\<close> once if the connection
  can be ensured and nothing otherwise. So the command writes this packet first whenever
  the connection is there, exactly once when the write succeeds as well, and never
  anything else; each scaled channel is a byte. With the brightness 0 the bytes written
  are \<open>69 96 05 02 00 00 00\<close>, and with 255 the channels are written unchanged, the
  percentage being 100.
\<close>

theorem set_rgb_color_scaling:
  "0 \<le> b \<and> b \<le> 255 \<and> 0 \<le> r \<and> r \<le> 255 \<and> 0 \<le> g \<and> g \<le> 255 \<and> 0 \<le> bl \<and> bl \<le> 255 \<Longrightarrow>
     set_rgb_color env (r, g, bl) (Some b) s =
       retry_bluetooth_connection_error (set_rgb_color_body env (r, g, bl) (Some b)) s \<and>
     written (trace (snd (set_rgb_color_body env (r, g, bl) (Some b) s))) =
       written (trace s) @
       (if fst (ensure_connected env s) = Inr ()
        then [Some [0x69, 0x96, 0x05, 0x02, word_of_int (spec_scaled r b),
                    word_of_int (spec_scaled g b), word_of_int (spec_scaled bl b)]]
        else []) \<and>
     fst (set_rgb_color_body env (r, g, bl) (Some b) s) =
       (case fst (ensure_connected env s) of
          Inl e \<Rightarrow> Inl e
        | Inr u \<Rightarrow>
            (case write_gatt_char env (clock (snd (ensure_connected env s))) of
               Some e \<Rightarrow> Inl e
             | None \<Rightarrow> Inr ())) \<and>
     (fst (ensure_connected env s) = Inr () \<longrightarrow>
        (\<exists>ws. written (trace (snd (set_rgb_color env (r, g, bl) (Some b) s))) =
                 written (trace s) @
                 Some [0x69, 0x96, 0x05, 0x02, word_of_int (spec_scaled r b),
                       word_of_int (spec_scaled g b), word_of_int (spec_scaled bl b)] # ws \<and>
           set ws \<subseteq> {Some [0x69, 0x96, 0x05, 0x02, word_of_int (spec_scaled r b),
                             word_of_int (spec_scaled g b), word_of_int (spec_scaled bl b)]} \<and>
           length ws \<le> 2)) \<and>
     (fst (ensure_connected env s) = Inr () \<and>
      write_gatt_char env (clock (snd (ensure_connected env s))) = None \<longrightarrow>
        fst (set_rgb_color env (r, g, bl) (Some b) s) = Inr (Some ()) \<and>
        written (trace (snd (set_rgb_color env (r, g, bl) (Some b) s))) =
          written (trace s) @
          [Some [0x69, 0x96, 0x05, 0x02, word_of_int (spec_scaled r b),
                 word_of_int (spec_scaled g b), word_of_int (spec_scaled bl b)]] \<and>
        written (trace (snd (set_rgb_color env (r, g, bl) (Some 0) s))) =
          written (trace s) @ [Some [0x69, 0x96, 0x05, 0x02, 0, 0, 0]] \<and>
        written (trace (snd (set_rgb_color env (r, g, bl) (Some 255) s))) =
          written (trace s) @
          [Some [0x69, 0x96, 0x05, 0x02, word_of_int r, word_of_int g, word_of_int bl]]) \<and>
     (\<exists>ws. written (trace (snd (set_rgb_color env (r, g, bl) (Some b) s))) =
              written (trace s) @ ws \<and>
        set ws \<subseteq> {Some [0x69, 0x96, 0x05, 0x02, word_of_int (spec_scaled r b),
                          word_of_int (spec_scaled g b), word_of_int (spec_scaled bl b)]} \<and>
        length ws \<le> 3 \<and>
        (fst (set_rgb_color env (r, g, bl) (Some b) s) = Inr (Some ()) \<longrightarrow> ws \<noteq> [])) \<and>
     0 \<le> spec_scaled r b \<and> spec_scaled r b \<le> 255 \<and>
     0 \<le> spec_scaled g b \<and> spec_scaled g b \<le> 255 \<and>
     0 \<le> spec_scaled bl b \<and> spec_scaled bl b \<le> 255 \<and>
     (\<forall>c. spec_scaled c 0 = 0 \<and> spec_scaled c 255 = c) \<and> 255 * 100 div 255 = (100::int)"
proof -
  assume a: "0 \<le> b \<and> b \<le> 255 \<and> 0 \<le> r \<and> r \<le> 255 \<and> 0 \<le> g \<and> g \<le> 255 \<and> 0 \<le> bl \<and> bl \<le> 255"
  have ends: "\<forall>c. spec_scaled c 0 = 0 \<and> spec_scaled c 255 = c"
    by (simp add: spec_scaled_def)
  have w: "\<And>b'. 0 \<le> b' \<Longrightarrow> b' \<le> 255 \<Longrightarrow>
      (fst (ensure_connected env s) = Inr () \<longrightarrow>
            (\<exists>ws. written (trace (snd (set_rgb_color env (r, g, bl) (Some b') s))) =
                     written (trace s) @
                     Some [0x69, 0x96, 0x05, 0x02, word_of_int (spec_scaled r b'),
                           word_of_int (spec_scaled g b'), word_of_int (spec_scaled bl b')] # ws \<and>
               set ws \<subseteq> {Some [0x69, 0x96, 0x05, 0x02, word_of_int (spec_scaled r b'),
                                 word_of_int (spec_scaled g b'), word_of_int (spec_scaled bl b')]} \<and>
               length ws \<le> 2)) \<and>
         (fst (ensure_connected env s) = Inr () \<and>
          write_gatt_char env (clock (snd (ensure_connected env s))) = None \<longrightarrow>
            fst (set_rgb_color env (r, g, bl) (Some b') s) = Inr (Some ()) \<and>
            written (trace (snd (set_rgb_color env (r, g, bl) (Some b') s))) =
              written (trace s) @
              [Some [0x69, 0x96, 0x05, 0x02, word_of_int (spec_scaled r b'),
                     word_of_int (spec_scaled g b'), word_of_int (spec_scaled bl b')]]) \<and>
         (\<exists>ws. written (trace (snd (set_rgb_color env (r, g, bl) (Some b') s))) =
                  written (trace s) @ ws \<and>
            set ws \<subseteq> {Some [0x69, 0x96, 0x05, 0x02, word_of_int (spec_scaled r b'),
                              word_of_int (spec_scaled g b'), word_of_int (spec_scaled bl b')]} \<and>
            length ws \<le> 3 \<and>
            (fst (set_rgb_color env (r, g, bl) (Some b') s) = Inr (Some ()) \<longrightarrow> ws \<noteq> []))"
    using a by (intro set_rgb_color_writes) simp_all
  have rng: "0 \<le> spec_scaled r b \<and> spec_scaled r b \<le> 255"
    "0 \<le> spec_scaled g b \<and> spec_scaled g b \<le> 255"
    "0 \<le> spec_scaled bl b \<and> spec_scaled bl b \<le> 255"
    using spec_scaled_range [of r b] spec_scaled_range [of g b] spec_scaled_range [of bl b] a
    by simp_all
  have w0: "written (trace (snd (set_rgb_color env (r, g, bl) (Some 0) s))) =
          written (trace s) @ [Some [0x69, 0x96, 0x05, 0x02, 0, 0, 0]]"
    if "fst (ensure_connected env s) = Inr ()"
      "write_gatt_char env (clock (snd (ensure_connected env s))) = None"
    using w [of 0] that ends by simp
  have w255: "written (trace (snd (set_rgb_color env (r, g, bl) (Some 255) s))) =
          written (trace s) @
          [Some [0x69, 0x96, 0x05, 0x02, word_of_int r, word_of_int g, word_of_int bl]]"
    if "fst (ensure_connected env s) = Inr ()"
      "write_gatt_char env (clock (snd (ensure_connected env s))) = None"
    using w [of 255] that ends by simp
  have wb: "(fst (ensure_connected env s) = Inr () \<longrightarrow>
            (\<exists>ws. written (trace (snd (set_rgb_color env (r, g, bl) (Some b) s))) =
                     written (trace s) @
                     Some [0x69, 0x96, 0x05, 0x02, word_of_int (spec_scaled r b),
                           word_of_int (spec_scaled g b), word_of_int (spec_scaled bl b)] # ws \<and>
               set ws \<subseteq> {Some [0x69, 0x96, 0x05, 0x02, word_of_int (spec_scaled r b),
                                 word_of_int (spec_scaled g b), word_of_int (spec_scaled bl b)]} \<and>
               length ws \<le> 2)) \<and>
         (fst (ensure_connected env s) = Inr () \<and>
          write_gatt_char env (clock (snd (ensure_connected env s))) = None \<longrightarrow>
            fst (set_rgb_color env (r, g, bl) (Some b) s) = Inr (Some ()) \<and>
            written (trace (snd (set_rgb_color env (r, g, bl) (Some b) s))) =
              written (trace s) @
              [Some [0x69, 0x96, 0x05, 0x02, word_of_int (spec_scaled r b),
                     word_of_int (spec_scaled g b), word_of_int (spec_scaled bl b)]]) \<and>
         (\<exists>ws. written (trace (snd (set_rgb_color env (r, g, bl) (Some b) s))) =
                  written (trace s) @ ws \<and>
            set ws \<subseteq> {Some [0x69, 0x96, 0x05, 0x02, word_of_int (spec_scaled r b),
                              word_of_int (spec_scaled g b), word_of_int (spec_scaled bl b)]} \<and>
            length ws \<le> 3 \<and>
            (fst (set_rgb_color env (r, g, bl) (Some b) s) = Inr (Some ()) \<longrightarrow> ws \<noteq> []))"
    using w [of b] a by simp
  have pct: "255 * 100 div 255 = (100::int)"
    by simp
  have attempt: "written (trace (snd (set_rgb_color_body env (r, g, bl) (Some b) s))) =
       written (trace s) @
       (if fst (ensure_connected env s) = Inr ()
        then [Some [0x69, 0x96, 0x05, 0x02, word_of_int (spec_scaled r b),
                    word_of_int (spec_scaled g b), word_of_int (spec_scaled bl b)]]
        else []) \<and>
     fst (set_rgb_color_body env (r, g, bl) (Some b) s) =
       (case fst (ensure_connected env s) of
          Inl e \<Rightarrow> Inl e
        | Inr u \<Rightarrow>
            (case write_gatt_char env (clock (snd (ensure_connected env s))) of
               Some e \<Rightarrow> Inl e
             | None \<Rightarrow> Inr ()))"
    by (rule write_command_attempt [where prep = "\<lambda>s. s\<lparr>rgb_color := Some (r, g, bl)\<rparr>"])
       (use a in \<open>simp_all add: set_rgb_color_body_packet\<close>)
  have deco: "set_rgb_color env (r, g, bl) (Some b) s =
       retry_bluetooth_connection_error (set_rgb_color_body env (r, g, bl) (Some b)) s"
    by (simp add: set_rgb_color_def)
  show ?thesis
    using wb w0 w255 rng ends pct attempt deco by blast
qed

theorem set_rgb_color_scaling_witness:
  "(0::int) \<le> 128 \<and> (128::int) \<le> 255 \<and> (0::int) \<le> 255 \<and> (255::int) \<le> 255 \<and>
   (0::int) \<le> 0 \<and> (0::int) \<le> 255 \<and>
   fst (ensure_connected link_ok fresh) = Inr () \<and>
   write_gatt_char link_ok (clock (snd (ensure_connected link_ok fresh))) = None \<and>
   spec_scaled 255 128 = 127 \<and>
   fst (set_rgb_color link_ok (255, 0, 0) (Some 128) fresh) = Inr (Some ()) \<and>
   written (trace (snd (set_rgb_color link_ok (255, 0, 0) (Some 128) fresh))) =
     written (trace fresh) @ [Some [0x69, 0x96, 0x05, 0x02, 0x7f, 0x00, 0x00]] \<and>
   written (trace (snd (set_rgb_color link_ok (255, 0, 0) (Some 0) fresh))) =
     written (trace fresh) @ [Some [0x69, 0x96, 0x05, 0x02, 0x00, 0x00, 0x00]] \<and>
   written (trace (snd (set_rgb_color link_ok (255, 0, 0) (Some 255) fresh))) =
     written (trace fresh) @ [Some [0x69, 0x96, 0x05, 0x02, 0xff, 0x00, 0x00]] \<and>
   fst (ensure_connected link_write_fails fresh) = Inr () \<and>
   (\<exists>ws. written (trace (snd (set_rgb_color link_write_fails (255, 0, 0) (Some 128) fresh))) =
            written (trace fresh) @ Some [0x69, 0x96, 0x05, 0x02, 0x7f, 0x00, 0x00] # ws \<and>
      set ws \<subseteq> {Some [0x69, 0x96, 0x05, 0x02, 0x7f, 0x00, 0x00]} \<and> length ws \<le> 2)"
proof -
  have r: "(0::int) \<le> 128 \<and> (128::int) \<le> 255 \<and> (0::int) \<le> 255 \<and> (255::int) \<le> 255 \<and>
      (0::int) \<le> 0 \<and> (0::int) \<le> 255 \<and> (0::int) \<le> 0 \<and> (0::int) \<le> 255"
    by simp
  have c: "fst (ensure_connected link_ok fresh) = Inr ()"
    "write_gatt_char link_ok (clock (snd (ensure_connected link_ok fresh))) = None"
    "fst (ensure_connected link_write_fails fresh) = Inr ()"
    by (simp_all add: eval_defs link_write_fails_def)
  have v: "spec_scaled 255 128 = 127" "spec_scaled 0 128 = 0"
    by (simp_all add: spec_scaled_def)
  have ok: "fst (set_rgb_color link_ok (255, 0, 0) (Some 128) fresh) = Inr (Some ()) \<and>
      written (trace (snd (set_rgb_color link_ok (255, 0, 0) (Some 128) fresh))) =
        written (trace fresh) @
        [Some [0x69, 0x96, 0x05, 0x02, word_of_int (spec_scaled 255 128),
               word_of_int (spec_scaled 0 128), word_of_int (spec_scaled 0 128)]] \<and>
      written (trace (snd (set_rgb_color link_ok (255, 0, 0) (Some 0) fresh))) =
        written (trace fresh) @ [Some [0x69, 0x96, 0x05, 0x02, 0, 0, 0]] \<and>
      written (trace (snd (set_rgb_color link_ok (255, 0, 0) (Some 255) fresh))) =
        written (trace fresh) @
        [Some [0x69, 0x96, 0x05, 0x02, word_of_int 255, word_of_int 0, word_of_int 0]]"
    using set_rgb_color_scaling [OF r, of link_ok fresh] c by blast
  have bad: "\<exists>ws. written (trace (snd (set_rgb_color link_write_fails (255, 0, 0) (Some 128) fresh))) =
            written (trace fresh) @
            Some [0x69, 0x96, 0x05, 0x02, word_of_int (spec_scaled 255 128),
                  word_of_int (spec_scaled 0 128), word_of_int (spec_scaled 0 128)] # ws \<and>
      set ws \<subseteq> {Some [0x69, 0x96, 0x05, 0x02, word_of_int (spec_scaled 255 128),
                        word_of_int (spec_scaled 0 128), word_of_int (spec_scaled 0 128)]} \<and>
      length ws \<le> 2"
    using set_rgb_color_scaling [OF r, of link_write_fails fresh] c by blast
  show ?thesis
    using c v ok bad by simp
qed

subsection \<open>Cached lighting state\<close>

text \<open>
  C1, as amended. \<open>set_rgb_color\<close> and \<open>set_effect\<close> (for a name of the table) assign
  the colour and the effect before anything is written, so the new value is cached
  whatever the transport does. \<open>turn_on\<close> and \<open>turn_off\<close> assign \<open>_is_on\<close> after the
  write: it holds the new value when the command returns, and is unchanged when the
  command raises.
\<close>

theorem cached_state_after_command:
  "rgb_color (snd (set_rgb_color env rgb br s)) = Some rgb \<and>
   (eff \<in> set EFFECT_LIST \<longrightarrow> effect (snd (set_effect env eff s)) = Some eff) \<and>
   (fst (turn_on env s) = Inr (Some ()) \<longrightarrow> is_on (snd (turn_on env s)) = Some True) \<and>
   (fst (turn_on env s) \<noteq> Inr (Some ()) \<longrightarrow> is_on (snd (turn_on env s)) = is_on s) \<and>
   (fst (turn_off env s) = Inr (Some ()) \<longrightarrow> is_on (snd (turn_off env s)) = Some False) \<and>
   (fst (turn_off env s) \<noteq> Inr (Some ()) \<longrightarrow> is_on (snd (turn_off env s)) = is_on s)"
proof -
  have rgb: "rgb_color (snd (set_rgb_color env rgb br s)) = Some rgb"
    unfolding set_rgb_color_def
    by (rule retry_always [of "\<lambda>s. rgb_color s = Some rgb"])
       (simp_all add: set_rgb_color_body_rgb LOGGER_def asyncio_sleep_def)
  have eff: "effect (snd (set_effect env eff s)) = Some eff" if "eff \<in> set EFFECT_LIST"
    unfolding set_effect_def
    by (rule retry_always [of "\<lambda>s. effect s = Some eff"])
       (simp_all add: set_effect_body_effect that LOGGER_def asyncio_sleep_def)
  have on_ok: "is_on (snd (turn_on env s)) = Some True" if "fst (turn_on env s) = Inr (Some ())"
    using that unfolding turn_on_def
    by (intro retry_returned [where Q = "\<lambda>s. is_on s = Some True" and v = "()"])
       (simp_all add: turn_on_body_returned)
  have on_bad: "is_on (snd (turn_on env s)) = is_on s" if "fst (turn_on env s) \<noteq> Inr (Some ())"
  proof -
    have "\<exists>e. fst (retry_bluetooth_connection_error (turn_on_body env) s) = Inl e"
      using that retry_outcome [of "turn_on_body env" s] unfolding turn_on_def by auto
    then obtain e where "fst (retry_bluetooth_connection_error (turn_on_body env) s) = Inl e"
      by blast
    then show ?thesis
      unfolding turn_on_def
      by (intro retry_raised [where f = is_on and e = e])
         (simp_all add: turn_on_body_raised is_on_LOGGER is_on_sleep)
  qed
  have off_ok: "is_on (snd (turn_off env s)) = Some False" if "fst (turn_off env s) = Inr (Some ())"
    using that unfolding turn_off_def
    by (intro retry_returned [where Q = "\<lambda>s. is_on s = Some False" and v = "()"])
       (simp_all add: turn_off_body_returned)
  have off_bad: "is_on (snd (turn_off env s)) = is_on s" if "fst (turn_off env s) \<noteq> Inr (Some ())"
  proof -
    have "\<exists>e. fst (retry_bluetooth_connection_error (turn_off_body env) s) = Inl e"
      using that retry_outcome [of "turn_off_body env" s] unfolding turn_off_def by auto
    then obtain e where "fst (retry_bluetooth_connection_error (turn_off_body env) s) = Inl e"
      by blast
    then show ?thesis
      unfolding turn_off_def
      by (intro retry_raised [where f = is_on and e = e])
         (simp_all add: turn_off_body_raised is_on_LOGGER is_on_sleep)
  qed
  show ?thesis
    using rgb eff on_ok on_bad off_ok off_bad by blast
qed

theorem cached_state_after_command_witness:
  "''colorjump'' \<in> set EFFECT_LIST \<and>
   effect (snd (set_effect link_write_fails ''colorjump'' fresh)) = Some ''colorjump'' \<and>
   rgb_color (snd (set_rgb_color link_write_fails (255, 0, 0) (Some 128) fresh)) = Some (255, 0, 0) \<and>
   fst (turn_on link_ok fresh) = Inr (Some ()) \<and>
   is_on (snd (turn_on link_ok fresh)) = Some True \<and>
   fst (turn_on link_write_fails fresh) \<noteq> Inr (Some ()) \<and>
   is_on (snd (turn_on link_write_fails fresh)) = is_on fresh \<and>
   fst (turn_off link_ok fresh) = Inr (Some ()) \<and>
   is_on (snd (turn_off link_ok fresh)) = Some False \<and>
   fst (turn_off link_write_fails fresh) \<noteq> Inr (Some ()) \<and>
   is_on (snd (turn_off link_write_fails fresh)) = is_on fresh"
proof -
  have e: "''colorjump'' \<in> set EFFECT_LIST"
    by (simp add: EFFECT_LIST_def)
  have on_ok: "fst (turn_on link_ok fresh) = Inr (Some ())"
    by (simp add: turn_on_def turn_on_body_def eval_defs link_write_fails_def)
  have on_bad: "fst (turn_on link_write_fails fresh) = Inl (BleakError ''write failed'')"
    by (simp add: turn_on_def turn_on_body_def eval_defs link_write_fails_def)
  have off_ok: "fst (turn_off link_ok fresh) = Inr (Some ())"
    by (simp add: turn_off_def turn_off_body_def eval_defs link_write_fails_def)
  have off_bad: "fst (turn_off link_write_fails fresh) = Inl (BleakError ''write failed'')"
    by (simp add: turn_off_def turn_off_body_def eval_defs link_write_fails_def)
  show ?thesis
    using cached_state_after_command [of link_write_fails "(255, 0, 0)" "Some 128" fresh "''colorjump''"]
      cached_state_after_command [of link_ok "(255, 0, 0)" "Some 128" fresh "''colorjump''"]
      e on_ok on_bad off_ok off_bad
    by simp
qed

text \<open>
  With every write failing, \<open>turn_on\<close> makes its three attempts, raises the last error,
  and \<open>_is_on\<close> is still \<open>None\<close>, not \<open>True\<close>.
\<close>

theorem turn_on_failed_write_keeps_is_on:
  "fst (turn_on link_write_fails fresh) = Inl (BleakError ''write failed'') \<and>
   written (trace (snd (turn_on link_write_fails fresh))) =
     [Some [0x69, 0x96, 0x02, 0x01, 0x01], Some [0x69, 0x96, 0x02, 0x01, 0x01],
      Some [0x69, 0x96, 0x02, 0x01, 0x01]] \<and>
   is_on (snd (turn_on link_write_fails fresh)) = None"
  by (simp add: turn_on_def turn_on_body_def eval_defs link_write_fails_def)

subsection \<open>Retrying\<close>

text \<open>
  C3. The decorator calls the wrapped coroutine at least once and at most three times,
  and the probe that counts the calls changes nothing else. \<open>BleakNotFoundError\<close> is
  raised again at once, at the first attempt (one call in all) or at the second. After a
  retryable error on the first or second attempt the coroutine is called again on the
  state that \<open>before_next_attempt\<close> leaves: a log entry, and after \<open>BleakDBusError\<close> a
  sleep of a quarter of a second, which the other retryable errors do not get. What the
  second or third attempt returns is returned; an error of the third attempt is raised
  as it is.
\<close>

theorem retry_policy:
  "BJLEDInstance.more c < BJLEDInstance.more (snd (retry_bluetooth_connection_error (counted func) c)) \<and>
   BJLEDInstance.more (snd (retry_bluetooth_connection_error (counted func) c)) \<le> BJLEDInstance.more c + 3 \<and>
   fst (retry_bluetooth_connection_error (counted func) c) =
     fst (retry_bluetooth_connection_error func (BJLEDInstance.truncate c)) \<and>
   BJLEDInstance.truncate (snd (retry_bluetooth_connection_error (counted func) c)) =
     snd (retry_bluetooth_connection_error func (BJLEDInstance.truncate c)) \<and>
   (fst (func (BJLEDInstance.truncate c)) = Inl (BleakNotFoundError m) \<longrightarrow>
      BJLEDInstance.more (snd (retry_bluetooth_connection_error (counted func) c)) =
        BJLEDInstance.more c + 1) \<and>
   (func s = (Inl (BleakNotFoundError m), s1) \<longrightarrow>
      retry_bluetooth_connection_error func s = (Inl (BleakNotFoundError m), s1)) \<and>
   (func s = (Inl e1, s1) \<and> retryable e1 \<and>
    func (before_next_attempt e1 s1) = (Inl (BleakNotFoundError m), s2) \<longrightarrow>
      retry_bluetooth_connection_error func s = (Inl (BleakNotFoundError m), s2)) \<and>
   (func s = (Inl e1, s1) \<and> retryable e1 \<and>
    func (before_next_attempt e1 s1) = (Inr v, s2) \<longrightarrow>
      retry_bluetooth_connection_error func s = (Inr (Some v), s2)) \<and>
   (func s = (Inl e1, s1) \<and> retryable e1 \<and>
    func (before_next_attempt e1 s1) = (Inl e2, s2) \<and> retryable e2 \<and>
    func (before_next_attempt e2 s2) = (Inr v, s3) \<longrightarrow>
      retry_bluetooth_connection_error func s = (Inr (Some v), s3)) \<and>
   (func s = (Inl e1, s1) \<and> retryable e1 \<and>
    func (before_next_attempt e1 s1) = (Inl e2, s2) \<and> retryable e2 \<and>
    func (before_next_attempt e2 s2) = (Inl e3, s3) \<and>
    (RETRY_BACKOFF_EXCEPTIONS e3 \<or> BLEAK_EXCEPTIONS e3) \<longrightarrow>
      retry_bluetooth_connection_error func s =
        (Inl e3, if is_BleakNotFoundError e3 then s3
                 else LOGGER DEBUG ''error calling, reach max attempts'' s3)) \<and>
   trace (before_next_attempt e1 s1) =
     trace s1 @
     (if RETRY_BACKOFF_EXCEPTIONS e1
      then [Log DEBUG ''error calling, backing off, retrying'', Sleep (1 / 4)]
      else [Log DEBUG ''error calling, retrying''])"
  using retry_counted [of c func] retry_counted_not_found [of func c m]
    retry_not_found [of func s m s1] retry_second_not_found [of func s e1 s1 m s2]
    retry_second_returns [of func s e1 s1 v s2]
    retry_third_returns [of func s e1 s1 e2 s2 v s3]
    retry_three_failures [of func s e1 s1 e2 s2 e3 s3]
    before_next_attempt_trace [of e1 s1]
  by blast

theorem retry_policy_witness:
  "turn_on_body link_not_found fresh =
     (Inl (BleakNotFoundError ''device not found''), snd (turn_on_body link_not_found fresh)) \<and>
   turn_on link_not_found fresh =
     (Inl (BleakNotFoundError ''device not found''), snd (turn_on_body link_not_found fresh)) \<and>
   BJLEDInstance.more
     (snd (retry_bluetooth_connection_error (counted (turn_on_body link_not_found))
        (BJLEDInstance.extend fresh 0))) = 1 \<and>
   turn_on_body link_flaky fresh = (Inl (BleakDBusError ''busy''), flaky1) \<and>
   retryable (BleakDBusError ''busy'') \<and>
   turn_on_body link_flaky (before_next_attempt (BleakDBusError ''busy'') flaky1) =
     (Inl (BleakError ''lost''), flaky2) \<and>
   retryable (BleakError ''lost'') \<and>
   turn_on_body link_flaky (before_next_attempt (BleakError ''lost'') flaky2) =
     (Inl (TimeoutError ''timeout''), flaky3) \<and>
   BLEAK_EXCEPTIONS (TimeoutError ''timeout'') \<and>
   turn_on link_flaky fresh =
     (Inl (TimeoutError ''timeout''), LOGGER DEBUG ''error calling, reach max attempts'' flaky3) \<and>
   trace (before_next_attempt (BleakDBusError ''busy'') flaky1) =
     trace flaky1 @ [Log DEBUG ''error calling, backing off, retrying'', Sleep (1 / 4)] \<and>
   trace (before_next_attempt (BleakError ''lost'') flaky2) =
     trace flaky2 @ [Log DEBUG ''error calling, retrying''] \<and>
   fst (turn_on link_second_try fresh) = Inr (Some ())"
proof -
  have nf: "turn_on_body link_not_found fresh =
     (Inl (BleakNotFoundError ''device not found''), snd (turn_on_body link_not_found fresh))"
    by (simp add: prod_eq_iff eval_defs link_not_found_def link_flaky_def link_second_try_def
          turn_on_body_def before_next_attempt_def flaky1_def flaky2_def flaky3_def)
  have nf': "fst (turn_on_body link_not_found (BJLEDInstance.truncate (BJLEDInstance.extend fresh (0::nat)))) =
     Inl (BleakNotFoundError ''device not found'')"
    by (simp add: truncate_extend eval_defs link_not_found_def link_flaky_def link_second_try_def
          turn_on_body_def before_next_attempt_def flaky1_def flaky2_def flaky3_def)
  have m0: "BJLEDInstance.more (BJLEDInstance.extend fresh (0::nat)) = 0"
    by (simp add: more_extend)
  have f1: "turn_on_body link_flaky fresh = (Inl (BleakDBusError ''busy''), flaky1)"
    by (simp add: prod_eq_iff eval_defs link_not_found_def link_flaky_def link_second_try_def
          turn_on_body_def before_next_attempt_def flaky1_def flaky2_def flaky3_def)
  have f2: "turn_on_body link_flaky (before_next_attempt (BleakDBusError ''busy'') flaky1) =
     (Inl (BleakError ''lost''), flaky2)"
    by (simp add: prod_eq_iff eval_defs link_not_found_def link_flaky_def link_second_try_def
          turn_on_body_def before_next_attempt_def flaky1_def flaky2_def flaky3_def)
  have f3: "turn_on_body link_flaky (before_next_attempt (BleakError ''lost'') flaky2) =
     (Inl (TimeoutError ''timeout''), flaky3)"
    by (simp add: prod_eq_iff eval_defs link_not_found_def link_flaky_def link_second_try_def
          turn_on_body_def before_next_attempt_def flaky1_def flaky2_def flaky3_def)
  have r: "retryable (BleakDBusError ''busy'')" "retryable (BleakError ''lost'')"
    "BLEAK_EXCEPTIONS (TimeoutError ''timeout'')"
    by (simp_all add: retryable_def)
  have g1: "turn_on_body link_second_try fresh =
     (Inl (BleakDBusError ''busy''), snd (turn_on_body link_second_try fresh))"
    by (simp add: prod_eq_iff eval_defs link_not_found_def link_flaky_def link_second_try_def
          turn_on_body_def before_next_attempt_def flaky1_def flaky2_def flaky3_def)
  have g2: "turn_on_body link_second_try
       (before_next_attempt (BleakDBusError ''busy'') (snd (turn_on_body link_second_try fresh))) =
     (Inr (), snd (turn_on_body link_second_try
       (before_next_attempt (BleakDBusError ''busy'') (snd (turn_on_body link_second_try fresh)))))"
    by (simp add: prod_eq_iff eval_defs link_not_found_def link_flaky_def link_second_try_def
          turn_on_body_def before_next_attempt_def flaky1_def flaky2_def flaky3_def)
  note p1 = retry_policy [where func = "turn_on_body link_not_found"
      and c = "BJLEDInstance.extend fresh 0" and m = "''device not found''" and s = fresh
      and ?s1.0 = "snd (turn_on_body link_not_found fresh)"]
  note p2 = retry_policy [where func = "turn_on_body link_flaky" and s = fresh
      and ?e1.0 = "BleakDBusError ''busy''" and ?s1.0 = flaky1
      and ?e2.0 = "BleakError ''lost''" and ?s2.0 = flaky2
      and ?e3.0 = "TimeoutError ''timeout''" and ?s3.0 = flaky3]
  note p3 = retry_policy [where func = "turn_on_body link_flaky"
      and ?e1.0 = "BleakError ''lost''" and ?s1.0 = flaky2]
  note p4 = retry_policy [where func = "turn_on_body link_second_try" and s = fresh
      and ?e1.0 = "BleakDBusError ''busy''" and ?s1.0 = "snd (turn_on_body link_second_try fresh)"
      and v = "()" and ?s2.0 = "snd (turn_on_body link_second_try
       (before_next_attempt (BleakDBusError ''busy'') (snd (turn_on_body link_second_try fresh))))"]
  have a: "turn_on link_not_found fresh =
     (Inl (BleakNotFoundError ''device not found''), snd (turn_on_body link_not_found fresh))"
    unfolding turn_on_def using p1 nf by blast
  have b: "BJLEDInstance.more
     (snd (retry_bluetooth_connection_error (counted (turn_on_body link_not_found))
        (BJLEDInstance.extend fresh 0))) = 1"
    using p1 nf' m0 by simp
  have c: "turn_on link_flaky fresh =
     (Inl (TimeoutError ''timeout''), LOGGER DEBUG ''error calling, reach max attempts'' flaky3)"
    unfolding turn_on_def using p2 f1 f2 f3 r by simp
  have d: "trace (before_next_attempt (BleakDBusError ''busy'') flaky1) =
     trace flaky1 @ [Log DEBUG ''error calling, backing off, retrying'', Sleep (1 / 4)]"
    using p2 by simp
  have e: "trace (before_next_attempt (BleakError ''lost'') flaky2) =
     trace flaky2 @ [Log DEBUG ''error calling, retrying'']"
    using p3 by simp
  have f: "fst (turn_on link_second_try fresh) = Inr (Some ())"
    unfolding turn_on_def using p4 g1 g2 r by simp
  show ?thesis
    using nf a b f1 f2 f3 r c d e f by simp
qed

subsection \<open>Connection state\<close>

text \<open>
  C2, as amended. A write-characteristic handle is held only while a client is held:
  \<open>_ensure_connected\<close> keeps this, and leaves a client whenever it returns;
  \<open>_execute_disconnect\<close> clears both, whatever the transport answers.
\<close>

theorem write_handle_needs_client:
  "((write_uuid s \<noteq> None \<longrightarrow> client s \<noteq> None) \<longrightarrow>
      (write_uuid (snd (ensure_connected env s)) \<noteq> None \<longrightarrow>
       client (snd (ensure_connected env s)) \<noteq> None)) \<and>
   (fst (ensure_connected env s) = Inr () \<longrightarrow> client (snd (ensure_connected env s)) \<noteq> None) \<and>
   client (snd (execute_disconnect env s)) = None \<and>
   write_uuid (snd (execute_disconnect env s)) = None"
  using ensure_connected_handle [of s env] ensure_connected_client [of env s "()"]
    execute_disconnect_cleared [of env s]
  by blast

theorem write_handle_needs_client_witness:
  "write_uuid connected \<noteq> None \<and> client connected \<noteq> None \<and>
   fst (ensure_connected link_ok connected) = Inr () \<and>
   write_uuid (snd (ensure_connected link_ok connected)) \<noteq> None \<and>
   client (snd (ensure_connected link_ok connected)) \<noteq> None \<and>
   client (snd (execute_disconnect link_ok connected)) = None \<and>
   write_uuid (snd (execute_disconnect link_ok connected)) = None"
proof -
  have c: "write_uuid connected \<noteq> None" "client connected \<noteq> None"
    by (simp_all add: eval_defs)
  have ok: "fst (ensure_connected link_ok connected) = Inr ()"
    by (simp add: eval_defs)
  have w: "write_uuid (snd (ensure_connected link_ok connected)) \<noteq> None"
    by (simp add: eval_defs)
  show ?thesis
    using write_handle_needs_client [of connected link_ok] c ok w by blast
qed

text \<open>
  The converse fails: a device whose services lack the write characteristic is connected
  to, and \<open>_ensure_connected\<close> returns with a client and no handle.
\<close>

theorem client_without_write_handle:
  "fst (ensure_connected link_no_characteristic fresh) = Inr () \<and>
   client (snd (ensure_connected link_no_characteristic fresh)) =
     Some (BleakClientWithServiceCache []) \<and>
   write_uuid (snd (ensure_connected link_no_characteristic fresh)) = None"
  by (simp add: eval_defs link_no_characteristic_def)

text \<open>
  C9. On a fresh session the connection succeeds and the write characteristic is found
  in the services of the client, yet the services are not cached:
  \<open>_resolve_characteristics\<close> answers \<open>bool(self._read_uuid and self._write_uuid)\<close> and
  nothing assigns \<open>_read_uuid\<close>.
\<close>

theorem services_never_cached:
  "fst (ensure_connected link_ok fresh) = Inr () \<and>
   client (snd (ensure_connected link_ok fresh)) = Some bj_client \<and>
   services bj_client = WRITE_CHARACTERISTIC_UUIDS \<and>
   write_uuid (snd (ensure_connected link_ok fresh)) = Some (hd WRITE_CHARACTERISTIC_UUIDS) \<and>
   cached_services (snd (ensure_connected link_ok fresh)) = None"
  by (simp add: eval_defs)

subsection \<open>Teardown\<close>

text \<open>
  C8, as amended. \<open>stop\<close> and \<open>_execute_timed_disconnect\<close> (which the timer's callback
  starts as a task) each clear the client and the write handle and mark the disconnect as
  expected; each returns unless a connected client was held and its \<open>disconnect\<close> raised,
  in which case it raises that error. The module logs its opening message, and
  \<open>Disconnected\<close> only when nothing was raised: after a failing disconnect call the trace
  ends with that call.
\<close>

theorem stop_outcome:
  "client (snd (stop env s)) = None \<and> write_uuid (snd (stop env s)) = None \<and>
   expected_disconnect (snd (stop env s)) \<and>
   fst (stop env s) =
     (if client s \<noteq> None \<and> is_connected env (clock s)
      then (case client_disconnect env (clock s) of Some err \<Rightarrow> Inl err | None \<Rightarrow> Inr ())
      else Inr ()) \<and>
   trace (snd (stop env s)) =
     trace s @ Log DEBUG ''Stop'' #
     (if client s \<noteq> None \<and> is_connected env (clock s)
      then ClientDisconnect (the (client s)) #
           (case client_disconnect env (clock s) of
              Some err \<Rightarrow> []
            | None \<Rightarrow> [Log DEBUG ''Disconnected''])
      else [Log DEBUG ''Disconnected'']) \<and>
   client (snd (execute_timed_disconnect env s)) = None \<and>
   write_uuid (snd (execute_timed_disconnect env s)) = None \<and>
   expected_disconnect (snd (execute_timed_disconnect env s)) \<and>
   fst (execute_timed_disconnect env s) =
     (if client s \<noteq> None \<and> is_connected env (clock s)
      then (case client_disconnect env (clock s) of Some err \<Rightarrow> Inl err | None \<Rightarrow> Inr ())
      else Inr ()) \<and>
   trace (snd (execute_timed_disconnect env s)) =
     trace s @ Log DEBUG ''Disconnecting after timeout'' #
     (if client s \<noteq> None \<and> is_connected env (clock s)
      then ClientDisconnect (the (client s)) #
           (case client_disconnect env (clock s) of
              Some err \<Rightarrow> []
            | None \<Rightarrow> [Log DEBUG ''Disconnected''])
      else [Log DEBUG ''Disconnected'']) \<and>
   disconnect env s = execute_timed_disconnect env (s\<lparr>disconnect_timer := None\<rparr>)"
  using execute_disconnect_cleared [of env "LOGGER DEBUG ''Stop'' s"]
    execute_disconnect_outcome [of env "LOGGER DEBUG ''Stop'' s"]
    execute_disconnect_cleared [of env "LOGGER DEBUG ''Disconnecting after timeout'' s"]
    execute_disconnect_outcome [of env "LOGGER DEBUG ''Disconnecting after timeout'' s"]
  by (simp add: stop_def execute_timed_disconnect_def disconnect_def LOGGER_def)

text \<open>
  With a failing disconnect both paths raise the transport's error, and the module logs
  nothing after the call.
\<close>

theorem stop_raises:
  "fst (stop link_disconnect_fails connected) = Inl (BleakError ''disconnect failed'') \<and>
   fst (execute_timed_disconnect link_disconnect_fails connected) =
     Inl (BleakError ''disconnect failed'') \<and>
   trace (snd (stop link_disconnect_fails connected)) =
     trace connected @ [Log DEBUG ''Stop'', ClientDisconnect bj_client] \<and>
   trace (snd (execute_timed_disconnect link_disconnect_fails connected)) =
     trace connected @ [Log DEBUG ''Disconnecting after timeout'', ClientDisconnect bj_client]"
  by (simp add: eval_defs link_disconnect_fails_def)

subsection \<open>Idle timer\<close>

text \<open>
  C7, as amended. When at most one timer is pending and it is the one the session holds,
  \<open>_reset_disconnect_timer\<close> leaves no timer for a delay that is unset or zero and
  exactly one new timer, of the configured delay, for any other delay; the same holds
  again afterwards, and also after \<open>_ensure_connected\<close>, \<open>_execute_disconnect\<close> and the
  firing of a timer. It holds for a new session.
\<close>

theorem reset_disconnect_timer_schedules:
  "(one_timer s \<longrightarrow>
      timers (reset_disconnect_timer s) =
        (case delay s of None \<Rightarrow> [] | Some d \<Rightarrow> if d = 0 then [] else [(next_handle s, d)]) \<and>
      one_timer (reset_disconnect_timer s) \<and>
      one_timer (snd (ensure_connected env s)) \<and>
      one_timer (snd (execute_disconnect env s)) \<and>
      one_timer (snd (timer_fires env h s))) \<and>
   one_timer (init name d)"
  using reset_disconnect_timer_timers [of s] ensure_connected_one_timer [of s env]
    execute_disconnect_one_timer [of s env] timer_fires_one_timer [of s env h]
    init_one_timer [of name d]
  by blast

theorem reset_disconnect_timer_schedules_witness:
  "one_timer connected \<and> timers connected = [(0, 5)] \<and> delay connected = Some 5 \<and>
   next_handle connected = 1 \<and>
   timers (reset_disconnect_timer connected) = [(1, 5)] \<and>
   one_timer (reset_disconnect_timer connected) \<and>
   one_timer (connected\<lparr>delay := Some 0\<rparr>) \<and>
   timers (reset_disconnect_timer (connected\<lparr>delay := Some 0\<rparr>)) = [] \<and>
   timers (reset_disconnect_timer (connected\<lparr>delay := None\<rparr>)) = []"
proof -
  have c: "one_timer connected" "timers connected = [(0, 5)]" "delay connected = Some 5"
    "next_handle connected = 1"
    by (simp_all add: eval_defs one_timer_def)
  have c0: "one_timer (connected\<lparr>delay := Some 0\<rparr>)" "one_timer (connected\<lparr>delay := None\<rparr>)"
    using c by (simp_all add: one_timer_def)
  show ?thesis
    using reset_disconnect_timer_schedules [of connected link_ok 0 "''BJ_LED''" "Some 5"]
      reset_disconnect_timer_schedules [of "connected\<lparr>delay := Some 0\<rparr>" link_ok 0 "''BJ_LED''" "Some 5"]
      reset_disconnect_timer_schedules [of "connected\<lparr>delay := None\<rparr>" link_ok 0 "''BJ_LED''" "Some 5"]
      c c0
    by simp
qed

text \<open>A delay of \<open>-1\<close> is not positive, and a timer is scheduled for it.\<close>

theorem negative_delay_schedules:
  "delay (init ''BJ_LED'' (Some (- 1))) = Some (- 1) \<and>
   timers (init ''BJ_LED'' (Some (- 1))) = [] \<and>
   timers (reset_disconnect_timer (init ''BJ_LED'' (Some (- 1)))) = [(0, - 1)]"
  by (simp add: eval_defs)

end
